theory Spec2Isabelle
  imports Complex_Main "HOL-Library.AList"
begin

section \<open>JavaScript values\<close>

text \<open>
  The adapter is JavaScript, and most of its branching is on the truthiness of
  dynamically typed values (\<^verbatim>\<open>a || b\<close>, \<^verbatim>\<open>!x\<close>, \<^verbatim>\<open>x && y\<close>). Values are therefore
  modelled as a datatype. Numbers are integers (events carry no fractions that any
  branch looks at; NaN and fractions are outside the model), strings are byte strings,
  an object is its list of own properties in insertion order.
\<close>

datatype jsval =
    JUndefined
  | JNull
  | JBool bool
  | JNum int
  | JStr string
  | JArr "jsval list"
  | JObj "(string \<times> jsval) list"

text \<open>
  A thrown value. Everything the repository throws itself is a plain \<^verbatim>\<open>Error\<close> with a
  message; the runtime adds \<^verbatim>\<open>TypeError\<close> for a property read on null or undefined and
  for a call of a method that does not exist. The text of a TypeError is the engine's
  and only approximated here.
\<close>

datatype jserror = TypeError string | Error string

fun message :: "jserror \<Rightarrow> string" where
  "message (TypeError m) = m"
| "message (Error m) = m"

fun truthy :: "jsval \<Rightarrow> bool" where
  "truthy JUndefined = False"
| "truthy JNull = False"
| "truthy (JBool b) = b"
| "truthy (JNum n) = (n \<noteq> 0)"
| "truthy (JStr s) = (s \<noteq> [])"
| "truthy (JArr xs) = True"
| "truthy (JObj kvs) = True"

text \<open>\<^verbatim>\<open>a || b\<close> on values (both operands already evaluated).\<close>

definition js_or :: "jsval \<Rightarrow> jsval \<Rightarrow> jsval" where
  "js_or a b = (if truthy a then a else b)"

definition nullish :: "jsval \<Rightarrow> bool" where
  "nullish v = (v = JUndefined \<or> v = JNull)"

definition field :: "(string \<times> jsval) list \<Rightarrow> string \<Rightarrow> jsval" where
  "field kvs k = (case map_of kvs k of None \<Rightarrow> JUndefined | Some v \<Rightarrow> v)"

text \<open>
  \<^verbatim>\<open>v.k\<close> for the property names the adapter reads (none of them is a built-in such as
  \<^verbatim>\<open>length\<close>): an own property of an object, undefined on every other value that is
  not null or undefined.
\<close>

fun propOf :: "jsval \<Rightarrow> string \<Rightarrow> jsval" where
  "propOf (JObj kvs) k = field kvs k"
| "propOf v k = JUndefined"

definition getProp :: "jsval \<Rightarrow> string \<Rightarrow> jserror + jsval" where
  "getProp v k =
     (if v = JUndefined then
        Inl (TypeError (''Cannot read properties of undefined (reading '' @ k @ '')''))
      else if v = JNull then
        Inl (TypeError (''Cannot read properties of null (reading '' @ k @ '')''))
      else Inr (propOf v k))"

text \<open>Optional chaining \<^verbatim>\<open>v?.k\<close>.\<close>

definition optProp :: "jsval \<Rightarrow> string \<Rightarrow> jsval" where
  "optProp v k = (if nullish v then JUndefined else propOf v k)"

section \<open>Strings, numbers and dates\<close>

text \<open>\<^verbatim>\<open>Array.prototype.join\<close> on strings.\<close>

fun join :: "string \<Rightarrow> string list \<Rightarrow> string" where
  "join sep [] = []"
| "join sep [x] = x"
| "join sep (x # y # ys) = x @ sep @ join sep (y # ys)"

definition digit :: "nat \<Rightarrow> char" where
  "digit d = (''0123456789'' ! (d mod 10))"

function showNat :: "nat \<Rightarrow> string" where
  "showNat n = (if n < 10 then [digit n] else showNat (n div 10) @ [digit n])"
  by pat_completeness auto
termination
  by (relation "measure id") auto

declare showNat.simps [simp del]

definition showInt :: "int \<Rightarrow> string" where
  "showInt i = (if i < 0 then ''-'' @ showNat (nat (- i)) else showNat (nat i))"

definition padStart :: "nat \<Rightarrow> char \<Rightarrow> string \<Rightarrow> string" where
  "padStart n c s = replicate (n - length s) c @ s"

text \<open>
  \<^verbatim>\<open>String(v)\<close>, which is also what a template literal does to an interpolated value.
  An array joins its elements with commas, null and undefined elements as the empty
  string.
\<close>

fun toStr :: "jsval \<Rightarrow> string" where
  "toStr JUndefined = ''undefined''"
| "toStr JNull = ''null''"
| "toStr (JBool b) = (if b then ''true'' else ''false'')"
| "toStr (JNum n) = showInt n"
| "toStr (JStr s) = s"
| "toStr (JArr xs) = join '','' (map (\<lambda>x. if nullish x then [] else toStr x) xs)"
| "toStr (JObj kvs) = ''[object Object]''"

text \<open>
  A point in time as the Date library breaks it down in UTC. The calendar arithmetic
  from milliseconds is the runtime's and stays a parameter of the environment; what the
  repository does with a date (formatting, splitting) is modelled.
\<close>

record utc =
  utc_year :: int
  utc_month :: nat
  utc_day :: nat
  utc_hours :: nat
  utc_minutes :: nat
  utc_seconds :: nat
  utc_millis :: nat

definition toISOString :: "utc \<Rightarrow> string" where
  "toISOString d =
     (if 0 \<le> utc_year d \<and> utc_year d \<le> 9999 then padStart 4 (CHR ''0'') (showNat (nat (utc_year d)))
      else (if utc_year d < 0 then ''-'' else ''+'')
             @ padStart 6 (CHR ''0'') (showNat (nat \<bar>utc_year d\<bar>)))
     @ ''-'' @ padStart 2 (CHR ''0'') (showNat (utc_month d))
     @ ''-'' @ padStart 2 (CHR ''0'') (showNat (utc_day d))
     @ ''T'' @ padStart 2 (CHR ''0'') (showNat (utc_hours d))
     @ '':'' @ padStart 2 (CHR ''0'') (showNat (utc_minutes d))
     @ '':'' @ padStart 2 (CHR ''0'') (showNat (utc_seconds d))
     @ ''.'' @ padStart 3 (CHR ''0'') (showNat (utc_millis d))
     @ ''Z''"

section \<open>The integration event (IntegrationEvent.js)\<close>

definition EventType_getAllTypes :: "jsval list" where
  "EventType_getAllTypes = [JStr ''Create'', JStr ''Update'', JStr ''Delete'', JStr ''Sync'']"

definition EventType_isValid :: "jsval \<Rightarrow> bool" where
  "EventType_isValid eventType = (eventType \<in> set EventType_getAllTypes)"

definition EntityType_getAllTypes :: "jsval list" where
  "EntityType_getAllTypes =
     [JStr ''Product'', JStr ''User'', JStr ''Store'', JStr ''Invoice'',
      JStr ''Material'', JStr ''Customer'', JStr ''Vendor'',
      JStr ''SalesOrder'', JStr ''PurchaseOrder'',
      JStr ''GoodsReceipt'', JStr ''GoodsIssue'', JStr ''Inventory'',
      JStr ''CostCenter'', JStr ''ProfitCenter'', JStr ''GLAccount'']"

definition EntityType_isValid :: "jsval \<Rightarrow> bool" where
  "EntityType_isValid entityType = (entityType \<in> set EntityType_getAllTypes)"

definition EntityType_mappings :: "(string \<times> jsval) list" where
  "EntityType_mappings =
     [(''Product'', JStr ''MATERIAL''),
      (''User'', JStr ''USER''),
      (''Store'', JStr ''PLANT''),
      (''Invoice'', JStr ''BILLING_DOCUMENT''),
      (''Material'', JStr ''MATERIAL''),
      (''Customer'', JStr ''CUSTOMER''),
      (''Vendor'', JStr ''VENDOR''),
      (''SalesOrder'', JStr ''SALES_ORDER''),
      (''PurchaseOrder'', JStr ''PURCHASE_ORDER''),
      (''GoodsReceipt'', JStr ''GOODS_RECEIPT''),
      (''GoodsIssue'', JStr ''GOODS_ISSUE''),
      (''Inventory'', JStr ''STOCK''),
      (''CostCenter'', JStr ''COST_CENTER''),
      (''ProfitCenter'', JStr ''PROFIT_CENTER''),
      (''GLAccount'', JStr ''GL_ACCOUNT'')]"

text \<open>
  \<^verbatim>\<open>mappings[entityType] || entityType\<close>: the key of the lookup is the value as a string.
  Only the table's own entries are looked up; names every object inherits (such as
  \<^verbatim>\<open>constructor\<close>) are not entity types that pass validation.
\<close>

definition getSAPEntityMapping :: "jsval \<Rightarrow> jsval" where
  "getSAPEntityMapping entityType = js_or (field EntityType_mappings (toStr entityType)) entityType"

record event_error =
  ee_timestamp :: string
  ee_error :: jsval
  ee_retryCount :: nat

record IntegrationEvent =
  ev_eventType :: jsval
  ev_entityType :: jsval
  ev_eventId :: jsval
  ev_timestamp :: jsval
  ev_sourceSystem :: jsval
  ev_payload :: jsval
  ev_context :: jsval
  ev_sapSpecific :: jsval
  ev_processedAt :: jsval
  ev_retryCount :: nat
  ev_status :: string
  ev_errors :: "event_error list"

text \<open>\<^verbatim>\<open>_validate\<close>: the list of complaints, in the order the source pushes them.\<close>

definition validationErrors :: "IntegrationEvent \<Rightarrow> string list" where
  "validationErrors e =
     (if \<not> truthy (ev_eventType e) \<or> \<not> EventType_isValid (ev_eventType e)
        then [''Invalid or missing eventType''] else [])
   @ (if \<not> truthy (ev_entityType e) \<or> \<not> EntityType_isValid (ev_entityType e)
        then [''Invalid or missing entityType''] else [])
   @ (if \<not> truthy (ev_eventId e) then [''Missing eventId''] else [])
   @ (if \<not> truthy (ev_timestamp e) then [''Missing timestamp''] else [])
   @ (if truthy (ev_payload e) \<and> \<not> truthy (propOf (ev_payload e) ''data'')
        then [''Payload must contain data property''] else [])"

definition IntegrationEvent_validate :: "IntegrationEvent \<Rightarrow> jserror + IntegrationEvent" where
  "IntegrationEvent_validate e =
     (let errors = validationErrors e in
      if length errors > 0
      then Inl (Error (''Integration Event validation failed: '' @ join '', '' errors))
      else Inr e)"

text \<open>
  The constructor. \<open>now\<close> is what \<^verbatim>\<open>new Date()\<close> gives at the time of the call. The
  timestamp falls back to the current time before \<^verbatim>\<open>_validate\<close> runs.
\<close>

definition IntegrationEvent_new ::
  "utc \<Rightarrow> jsval \<Rightarrow> jsval \<Rightarrow> jsval \<Rightarrow> jsval \<Rightarrow> jsval \<Rightarrow> jsval \<Rightarrow> jsval
     \<Rightarrow> jserror + IntegrationEvent" where
  "IntegrationEvent_new now eventType entityType eventId timestamp sourceSystem payload context =
     IntegrationEvent_validate
       \<lparr> ev_eventType = eventType,
         ev_entityType = entityType,
         ev_eventId = eventId,
         ev_timestamp = js_or timestamp (JStr (toISOString now)),
         ev_sourceSystem = sourceSystem,
         ev_payload = payload,
         ev_context = context,
         ev_sapSpecific = JNull,
         ev_processedAt = JNull,
         ev_retryCount = 0,
         ev_status = ''pending'',
         ev_errors = [] \<rparr>"

text \<open>
  \<^verbatim>\<open>fromIntegrationBridgeDto\<close>: each field is read lower-camel first, upper-camel as the
  fallback. The first property read throws on a null or undefined dto.
\<close>

definition fromIntegrationBridgeDto :: "utc \<Rightarrow> jsval \<Rightarrow> jserror + IntegrationEvent" where
  "fromIntegrationBridgeDto now dto =
     (case getProp dto ''eventType'' of
        Inl e \<Rightarrow> Inl e
      | Inr _ \<Rightarrow>
          IntegrationEvent_new now
            (js_or (propOf dto ''eventType'') (propOf dto ''EventType''))
            (js_or (propOf dto ''entityType'') (propOf dto ''EntityType''))
            (js_or (propOf dto ''eventId'') (propOf dto ''EventId''))
            (js_or (propOf dto ''timeStamp'') (propOf dto ''TimeStamp''))
            (js_or (propOf dto ''sourceSystem'') (propOf dto ''SourceSystem''))
            (js_or (propOf dto ''payload'') (propOf dto ''Payload''))
            (js_or (propOf dto ''context'') (propOf dto ''Context'')))"

section \<open>The SAP record (SAPRecord.js)\<close>

record SAPRecord =
  rec_id :: string
  rec_sapEntityType :: jsval
  rec_sapKey :: jsval
  rec_entityType :: jsval
  rec_integrationEventId :: jsval
  rec_data :: jsval
  rec_sapClient :: jsval
  rec_companyCode :: jsval
  rec_plant :: jsval
  rec_warehouse :: jsval
  rec_language :: jsval
  rec_createdAt :: string
  rec_updatedAt :: string
  rec_status :: string
  rec_version :: jsval
  rec_changeNumber :: jsval
  rec_validFrom :: jsval
  rec_validTo :: jsval

text \<open>\<^verbatim>\<open>typeof v === 'object'\<close> (true of null and of arrays as well).\<close>

fun typeofObject :: "jsval \<Rightarrow> bool" where
  "typeofObject JNull = True"
| "typeofObject (JArr xs) = True"
| "typeofObject (JObj kvs) = True"
| "typeofObject v = False"

definition recordErrors :: "SAPRecord \<Rightarrow> string list" where
  "recordErrors r =
     (if \<not> truthy (rec_sapEntityType r) then [''Missing sapEntityType''] else [])
   @ (if \<not> truthy (rec_sapKey r) then [''Missing sapKey''] else [])
   @ (if \<not> truthy (rec_entityType r) then [''Missing entityType''] else [])
   @ (if \<not> truthy (rec_sapClient r) then [''Missing sapClient''] else [])
   @ (if \<not> truthy (rec_companyCode r) then [''Missing companyCode''] else [])
   @ (if \<not> truthy (rec_data r) \<or> \<not> typeofObject (rec_data r)
        then [''Invalid or missing data''] else [])"

definition SAPRecord_validate :: "SAPRecord \<Rightarrow> jserror + SAPRecord" where
  "SAPRecord_validate r =
     (let errors = recordErrors r in
      if length errors > 0
      then Inl (Error (''SAP Record validation failed: '' @ join '', '' errors))
      else Inr r)"

text \<open>A destructuring default \<^verbatim>\<open>{ x = d }\<close>: it applies to undefined only.\<close>

definition dflt :: "jsval \<Rightarrow> jsval \<Rightarrow> jsval" where
  "dflt v d = (if v = JUndefined then d else v)"

text \<open>
  \<^verbatim>\<open>SAPRecord.fromIntegrationEvent(event, sapConfig)\<close>. \<open>nowMs\<close> is \<^verbatim>\<open>Date.now()\<close> and
  \<open>now\<close> the same instant broken down. The only read that can throw is
  \<^verbatim>\<open>sapConfig.client\<close>, the event being an object.
\<close>

definition fromIntegrationEvent ::
  "int \<Rightarrow> utc \<Rightarrow> IntegrationEvent \<Rightarrow> jsval \<Rightarrow> jserror + SAPRecord" where
  "fromIntegrationEvent nowMs now event sapConfig =
     (case getProp sapConfig ''client'' of
        Inl e \<Rightarrow> Inl e
      | Inr client \<Rightarrow>
          SAPRecord_validate
            \<lparr> rec_id = toStr (ev_eventId event) @ ''_'' @ showInt nowMs,
              rec_sapEntityType = getSAPEntityMapping (ev_entityType event),
              rec_sapKey = js_or (optProp (optProp (ev_payload event) ''data'') ''id'') (ev_eventId event),
              rec_entityType = ev_entityType event,
              rec_integrationEventId = ev_eventId event,
              rec_data = js_or (optProp (ev_payload event) ''data'') (JObj []),
              rec_sapClient = client,
              rec_companyCode = propOf sapConfig ''companyCode'',
              rec_plant = dflt (propOf sapConfig ''plant'') JNull,
              rec_warehouse = dflt (propOf sapConfig ''warehouse'') JNull,
              rec_language = js_or (propOf sapConfig ''language'') (JStr ''EN''),
              rec_createdAt = toISOString now,
              rec_updatedAt = toISOString now,
              rec_status = ''active'',
              rec_version = JNull,
              rec_changeNumber = JNull,
              rec_validFrom = JNull,
              rec_validTo = JNull \<rparr>)"

text \<open>
  \<^verbatim>\<open>_mapMaterialFields\<close>, the record's own translation of canonical data into the field
  names of the remote system (\<^verbatim>\<open>toRFCStructure\<close> uses it). Only the fields the material
  create builder reads are kept.
\<close>

definition mapMaterialFields :: "SAPRecord \<Rightarrow> (string \<times> jsval) list" where
  "mapMaterialFields r =
     (let record_data = rec_data r in
      [(''MATERIAL'', js_or (js_or (propOf record_data ''id'') (propOf record_data ''code'')) (rec_sapKey r)),
       (''MATERIAL_TYPE'', js_or (propOf record_data ''type'') (JStr ''FERT'')),
       (''INDUSTRY_SECTOR'', js_or (propOf record_data ''industrySector'') (JStr ''M'')),
       (''BASE_UNIT'', js_or (propOf record_data ''baseUnit'') (JStr ''EA''))])"

section \<open>The processing result (ProcessingResult.js)\<close>

record ProcessingResult =
  pr_success :: bool
  pr_eventId :: jsval
  pr_entityType :: jsval
  pr_operation :: string
  pr_sapResult :: jsval
  pr_message :: jsval
  pr_error :: jsval
  pr_metadata :: "(string \<times> jsval) list"
  pr_timestamp :: jsval
  pr_processingTime :: jsval
  pr_retryable :: bool

text \<open>
  The constructor's argument object. An omitted property is \<open>JUndefined\<close>, and \<open>None\<close>
  for the two that are not plain values.
\<close>

record pr_args =
  a_success :: bool
  a_eventId :: jsval
  a_entityType :: jsval
  a_operation :: string
  a_sapResult :: jsval
  a_message :: jsval
  a_error :: jsval
  a_metadata :: "(string \<times> jsval) list option"
  a_timestamp :: jsval
  a_processingTime :: jsval
  a_retryable :: "bool option"

definition ProcessingResult_new :: "utc \<Rightarrow> pr_args \<Rightarrow> ProcessingResult" where
  "ProcessingResult_new now a =
     \<lparr> pr_success = a_success a,
       pr_eventId = a_eventId a,
       pr_entityType = a_entityType a,
       pr_operation = a_operation a,
       pr_sapResult = dflt (a_sapResult a) JNull,
       pr_message = dflt (a_message a) JNull,
       pr_error = dflt (a_error a) JNull,
       pr_metadata = (case a_metadata a of None \<Rightarrow> [] | Some m \<Rightarrow> m),
       pr_timestamp = js_or (dflt (a_timestamp a) JNull) (JStr (toISOString now)),
       pr_processingTime = dflt (a_processingTime a) JNull,
       pr_retryable = (case a_retryable a of None \<Rightarrow> True | Some r \<Rightarrow> r) \<rparr>"

text \<open>\<^verbatim>\<open>ProcessingResult.success\<close>; \<open>None\<close> for an omitted metadata argument.\<close>

definition success ::
  "utc \<Rightarrow> jsval \<Rightarrow> jsval \<Rightarrow> string \<Rightarrow> jsval \<Rightarrow> (string \<times> jsval) list option
     \<Rightarrow> ProcessingResult" where
  "success now eventId entityType operation sapResult metadata =
     ProcessingResult_new now
       \<lparr> a_success = True,
         a_eventId = eventId,
         a_entityType = entityType,
         a_operation = operation,
         a_sapResult = sapResult,
         a_message = JStr (''Successfully processed '' @ operation @ '' for '' @ toStr entityType),
         a_error = JUndefined,
         a_metadata = Some (case metadata of None \<Rightarrow> [] | Some m \<Rightarrow> m),
         a_timestamp = JUndefined,
         a_processingTime = JUndefined,
         a_retryable = Some False \<rparr>"

text \<open>
  The \<^verbatim>\<open>error\<close> argument of \<^verbatim>\<open>ProcessingResult.failure\<close> is a caught error object or
  any other value (the normalizers pass a string).
\<close>

datatype errarg = Thrown jserror | Value jsval

fun errorMessage :: "errarg \<Rightarrow> string" where
  "errorMessage (Thrown e) = message e"
| "errorMessage (Value v) = toStr v"

definition failure ::
  "utc \<Rightarrow> jsval \<Rightarrow> jsval \<Rightarrow> string \<Rightarrow> errarg \<Rightarrow> bool option
     \<Rightarrow> (string \<times> jsval) list option \<Rightarrow> ProcessingResult" where
  "failure now eventId entityType operation error retryable metadata =
     ProcessingResult_new now
       \<lparr> a_success = False,
         a_eventId = eventId,
         a_entityType = entityType,
         a_operation = operation,
         a_sapResult = JUndefined,
         a_message = JStr (''Failed to process '' @ operation @ '' for '' @ toStr entityType
                            @ '': '' @ errorMessage error),
         a_error = JStr (errorMessage error),
         a_metadata = Some (case metadata of None \<Rightarrow> [] | Some m \<Rightarrow> m),
         a_timestamp = JUndefined,
         a_processingTime = JUndefined,
         a_retryable = Some (case retryable of None \<Rightarrow> True | Some r \<Rightarrow> r) \<rparr>"

text \<open>
  \<^verbatim>\<open>Array.prototype.some\<close> and \<^verbatim>\<open>filter\<close> with a callback that may throw: \<^verbatim>\<open>some\<close>
  stops at the first element the callback accepts, \<^verbatim>\<open>filter\<close> visits every element.
\<close>

fun someM :: "('a \<Rightarrow> jserror + bool) \<Rightarrow> 'a list \<Rightarrow> jserror + bool" where
  "someM p [] = Inr False"
| "someM p (x # xs) =
     (case p x of Inl e \<Rightarrow> Inl e | Inr b \<Rightarrow> if b then Inr True else someM p xs)"

fun filterM :: "('a \<Rightarrow> jserror + bool) \<Rightarrow> 'a list \<Rightarrow> jserror + 'a list" where
  "filterM p [] = Inr []"
| "filterM p (x # xs) =
     (case p x of
        Inl e \<Rightarrow> Inl e
      | Inr b \<Rightarrow>
          (case filterM p xs of
             Inl e \<Rightarrow> Inl e
           | Inr ys \<Rightarrow> Inr (if b then x # ys else ys)))"

text \<open>\<^verbatim>\<open>msg.TYPE === 'E' || msg.TYPE === 'A'\<close>, as the RFC normalizer and the commit guard test it.\<close>

definition isErrorOrAbort :: "jsval \<Rightarrow> jserror + bool" where
  "isErrorOrAbort msg =
     (case getProp msg ''TYPE'' of
        Inl e \<Rightarrow> Inl e
      | Inr t \<Rightarrow> Inr (t = JStr ''E'' \<or> t = JStr ''A''))"

text \<open>The BAPI normalizer's test, which also looks at \<^verbatim>\<open>MESSAGE_TYPE\<close>.\<close>

definition isBAPIError :: "jsval \<Rightarrow> jserror + bool" where
  "isBAPIError msg =
     (case getProp msg ''TYPE'' of
        Inl e \<Rightarrow> Inl e
      | Inr t \<Rightarrow> Inr (t = JStr ''E'' \<or> t = JStr ''A'' \<or> propOf msg ''MESSAGE_TYPE'' = JStr ''E''))"

definition isWarning :: "jsval \<Rightarrow> jserror + bool" where
  "isWarning msg =
     (case getProp msg ''TYPE'' of
        Inl e \<Rightarrow> Inl e
      | Inr t \<Rightarrow> Inr (t = JStr ''W''))"

text \<open>
  The two message templates. They run on messages that passed the filter, which are
  not null or undefined.
\<close>

definition rfcMessageText :: "jsval \<Rightarrow> string" where
  "rfcMessageText msg =
     toStr (propOf msg ''ID'') @ toStr (propOf msg ''NUMBER'') @ '': '' @ toStr (propOf msg ''MESSAGE'')"

definition bapiMessageText :: "jsval \<Rightarrow> string" where
  "bapiMessageText msg =
     toStr (js_or (propOf msg ''ID'') (propOf msg ''MESSAGE_ID''))
     @ toStr (js_or (propOf msg ''NUMBER'') (propOf msg ''MESSAGE_NUMBER''))
     @ '': '' @ toStr (propOf msg ''MESSAGE'')"

definition fromRFCResult ::
  "utc \<Rightarrow> jsval \<Rightarrow> jsval \<Rightarrow> string \<Rightarrow> jsval \<Rightarrow> jserror + ProcessingResult" where
  "fromRFCResult now eventId entityType operation rfcResult =
     (case getProp rfcResult ''ET_RETURN'' of
        Inl e \<Rightarrow> Inl e
      | Inr et \<Rightarrow>
          if \<not> truthy et then
            Inr (success now eventId entityType operation rfcResult
                   (Some [(''warnings'', JArr []),
                          (''rfcFunction'', propOf rfcResult ''FUNCTION_NAME''),
                          (''sapMessages'', JArr [])]))
          else
            (case et of
               JArr msgs \<Rightarrow>
                 (case someM isErrorOrAbort msgs of
                    Inl e \<Rightarrow> Inl e
                  | Inr hasErrors \<Rightarrow>
                      if hasErrors then
                        (case filterM isErrorOrAbort msgs of
                           Inl e \<Rightarrow> Inl e
                         | Inr bad \<Rightarrow>
                             Inr (failure now eventId entityType operation
                                    (Value (JStr (''SAP RFC Error: '' @ join ''; '' (map rfcMessageText bad))))
                                    (Some True)
                                    (Some [(''rfcMessages'', et),
                                           (''rfcFunction'', propOf rfcResult ''FUNCTION_NAME'')])))
                      else
                        (case filterM isWarning msgs of
                           Inl e \<Rightarrow> Inl e
                         | Inr warnings \<Rightarrow>
                             Inr (success now eventId entityType operation rfcResult
                                    (Some [(''warnings'', JArr warnings),
                                           (''rfcFunction'', propOf rfcResult ''FUNCTION_NAME''),
                                           (''sapMessages'', et)]))))
             | _ \<Rightarrow> Inl (TypeError ''rfcResult.ET_RETURN.some is not a function'')))"

text \<open>
  \<^verbatim>\<open>bapiResult.RETURN || bapiResult.ET_RETURN || []\<close>, wrapped into a list when it is not
  an array.
\<close>

definition bapiMessages :: "jsval \<Rightarrow> jsval list" where
  "bapiMessages bapiResult =
     (case js_or (js_or (propOf bapiResult ''RETURN'') (propOf bapiResult ''ET_RETURN'')) (JArr []) of
        JArr msgs \<Rightarrow> msgs
      | v \<Rightarrow> [v])"

definition objectKey :: "jsval \<Rightarrow> jsval" where
  "objectKey bapiResult =
     js_or (js_or (js_or (js_or (js_or
       (propOf bapiResult ''MATERIAL'')
       (propOf bapiResult ''CUSTOMER''))
       (propOf bapiResult ''VENDOR''))
       (propOf bapiResult ''SALESDOCUMENT''))
       (propOf bapiResult ''PURCHASEORDER''))
       (propOf bapiResult ''DOCUMENT_NUMBER'')"

definition fromBAPIResult ::
  "utc \<Rightarrow> jsval \<Rightarrow> jsval \<Rightarrow> string \<Rightarrow> jsval \<Rightarrow> jserror + ProcessingResult" where
  "fromBAPIResult now eventId entityType operation bapiResult =
     (case getProp bapiResult ''RETURN'' of
        Inl e \<Rightarrow> Inl e
      | Inr _ \<Rightarrow>
          (let messages = bapiMessages bapiResult in
           case someM isBAPIError messages of
             Inl e \<Rightarrow> Inl e
           | Inr hasErrors \<Rightarrow>
               if hasErrors then
                 (case filterM isBAPIError messages of
                    Inl e \<Rightarrow> Inl e
                  | Inr bad \<Rightarrow>
                      Inr (failure now eventId entityType operation
                             (Value (JStr (''SAP BAPI Error: '' @ join ''; '' (map bapiMessageText bad))))
                             (Some True)
                             (Some [(''bapiMessages'', JArr messages),
                                    (''bapiFunction'', propOf bapiResult ''FUNCTION_NAME'')])))
               else
                 Inr (success now eventId entityType operation bapiResult
                        (Some [(''objectKey'', objectKey bapiResult),
                               (''bapiMessages'', JArr messages),
                               (''bapiFunction'', propOf bapiResult ''FUNCTION_NAME'')]))))"

text \<open>\<^verbatim>\<open>setProcessingTime(startTime)\<close>, with \<open>nowMs\<close> for \<^verbatim>\<open>Date.now()\<close>.\<close>

definition setProcessingTime :: "int \<Rightarrow> int \<Rightarrow> ProcessingResult \<Rightarrow> ProcessingResult" where
  "setProcessingTime nowMs startTime r =
     r \<lparr> pr_processingTime := JNum (nowMs - startTime),
         pr_metadata := AList.update ''processingTimeMs'' (JNum (nowMs - startTime)) (pr_metadata r) \<rparr>"

section \<open>The remote-call service (SAPRFCService.js)\<close>

text \<open>
  What the service cannot decide itself is a parameter: the remote system behind
  \<^verbatim>\<open>client.call(name, parameters)\<close>, which answers or throws and takes some
  milliseconds, as a function of the calls made so far; and the calendar of the Date
  library.
\<close>

record env =
  transport :: "(string \<times> jsval) list \<Rightarrow> string \<Rightarrow> jsval \<Rightarrow> nat \<times> (jserror + jsval)"
  calendar :: "int \<Rightarrow> utc"

text \<open>
  The service object. \<open>history\<close> (the calls made on the client, in order) and \<open>clock\<close>
  (what \<^verbatim>\<open>Date.now()\<close> reads) are not fields of the class: they are the state of the
  world the service acts on. Time passes during remote calls only. Calls of the logger
  are left out: the logger is handed in by the caller and is taken to return.
\<close>

record SAPRFCService =
  isConnectedFlag :: bool
  hasClient :: bool
  lastError :: "jserror option"
  lastActivity :: "int option"
  callsExecuted :: nat
  errorsCount :: nat
  averageResponseTime :: rat
  totalResponseTime :: int
  history :: "(string \<times> jsval) list"
  clock :: int

definition nowOf :: "env \<Rightarrow> SAPRFCService \<Rightarrow> utc" where
  "nowOf env s = calendar env (clock s)"

definition isConnected :: "SAPRFCService \<Rightarrow> bool" where
  "isConnected s = (isConnectedFlag s \<and> hasClient s)"

definition updateConnectionStats :: "int \<Rightarrow> SAPRFCService \<Rightarrow> SAPRFCService" where
  "updateConnectionStats responseTime s =
     s \<lparr> lastActivity := Some (clock s),
         callsExecuted := callsExecuted s + 1,
         totalResponseTime := totalResponseTime s + responseTime,
         averageResponseTime :=
           of_int (totalResponseTime s + responseTime) / of_nat (callsExecuted s + 1) \<rparr>"

text \<open>The own enumerable properties a spread \<^verbatim>\<open>{...v}\<close> or \<^verbatim>\<open>Object.keys(v)\<close> sees.\<close>

fun ownProps :: "jsval \<Rightarrow> (string \<times> jsval) list" where
  "ownProps (JObj kvs) = kvs"
| "ownProps (JArr xs) = zip (map showNat [0..<length xs]) xs"
| "ownProps (JStr s) = zip (map showNat [0..<length s]) (map (\<lambda>c. JStr [c]) s)"
| "ownProps v = []"

definition executeRFC ::
  "env \<Rightarrow> SAPRFCService \<Rightarrow> string \<Rightarrow> jsval \<Rightarrow> SAPRFCService \<times> (jserror + jsval)" where
  "executeRFC env s functionName parameters =
     (if \<not> isConnected s then (s, Inl (Error ''Not connected to SAP system''))
      else
        (case transport env (history s) functionName parameters of
           (responseTime, outcome) \<Rightarrow>
             (let s1 = s \<lparr> history := history s @ [(functionName, parameters)],
                            clock := clock s + int responseTime \<rparr>
              in case outcome of
                   Inr result \<Rightarrow>
                     (updateConnectionStats (int responseTime) s1,
                      Inr (JObj (AList.update ''SUCCESS'' (JBool True)
                                (AList.update ''EXECUTION_TIME'' (JNum (int responseTime))
                                (AList.update ''FUNCTION_NAME'' (JStr functionName)
                                (ownProps result))))))
                 | Inl error \<Rightarrow>
                     (updateConnectionStats (int responseTime)
                        (s1 \<lparr> lastError := Some error, errorsCount := errorsCount s1 + 1 \<rparr>),
                      Inl error))))"

definition hasBAPIErrors :: "jsval \<Rightarrow> jserror + bool" where
  "hasBAPIErrors returnMessages =
     someM isErrorOrAbort (case returnMessages of JArr msgs \<Rightarrow> msgs | v \<Rightarrow> [v])"

text \<open>The two properties of the options object that the service reads.\<close>

record options =
  commitWork :: jsval
  flagForDeletion :: jsval

definition noOptions :: options where
  "noOptions = \<lparr> commitWork = JUndefined, flagForDeletion = JUndefined \<rparr>"

definition executeBAPI ::
  "env \<Rightarrow> SAPRFCService \<Rightarrow> string \<Rightarrow> jsval \<Rightarrow> options \<Rightarrow> SAPRFCService \<times> (jserror + jsval)" where
  "executeBAPI env s bapiName parameters opts =
     (case executeRFC env s bapiName parameters of
        (s1, Inl e) \<Rightarrow> (s1, Inl e)
      | (s1, Inr result) \<Rightarrow>
          if commitWork opts \<noteq> JBool False \<and> truthy (propOf result ''RETURN'') then
            (case hasBAPIErrors (propOf result ''RETURN'') of
               Inl e \<Rightarrow> (s1, Inl e)
             | Inr errs \<Rightarrow>
                 if \<not> errs then
                   (fst (executeRFC env s1 ''BAPI_TRANSACTION_COMMIT'' (JObj [(''WAIT'', JStr ''X'')])),
                    Inr result)
                 else (s1, Inr result))
          else (s1, Inr result))"

definition upperChar :: "char \<Rightarrow> char" where
  "upperChar c =
     (case map_of (zip ''abcdefghijklmnopqrstuvwxyz'' ''ABCDEFGHIJKLMNOPQRSTUVWXYZ'') c of
        None \<Rightarrow> c | Some u \<Rightarrow> u)"

definition lowerChar :: "char \<Rightarrow> char" where
  "lowerChar c =
     (case map_of (zip ''ABCDEFGHIJKLMNOPQRSTUVWXYZ'' ''abcdefghijklmnopqrstuvwxyz'') c of
        None \<Rightarrow> c | Some l \<Rightarrow> l)"

definition toLowerCase :: "string \<Rightarrow> string" where
  "toLowerCase s = map lowerChar s"

text \<open>\<^verbatim>\<open>entityType.toUpperCase()\<close> on whatever the caller passed as entity type.\<close>

fun toUpperCase :: "jsval \<Rightarrow> jserror + string" where
  "toUpperCase (JStr s) = Inr (map upperChar s)"
| "toUpperCase JUndefined = Inl (TypeError ''Cannot read properties of undefined (reading toUpperCase)'')"
| "toUpperCase JNull = Inl (TypeError ''Cannot read properties of null (reading toUpperCase)'')"
| "toUpperCase v = Inl (TypeError ''entityType.toUpperCase is not a function'')"

subsection \<open>Parameter builders\<close>

definition buildMaterialCreateParameters :: "jsval \<Rightarrow> jserror + jsval" where
  "buildMaterialCreateParameters record_data =
     (case getProp record_data ''MATERIAL'' of
        Inl e \<Rightarrow> Inl e
      | Inr material \<Rightarrow>
          Inr (JObj
            [(''HEADDATA'', JObj
                [(''MATERIAL'', js_or material (JStr [])),
                 (''IND_SECTOR'', js_or (propOf record_data ''INDUSTRY_SECTOR'') (JStr ''M'')),
                 (''MATL_TYPE'', js_or (propOf record_data ''MATERIAL_TYPE'') (JStr ''FERT'')),
                 (''BASIC_VIEW'', JStr ''X'')]),
             (''CLIENTDATA'', JObj
                [(''BASE_UOM'', js_or (propOf record_data ''BASE_UNIT'') (JStr ''EA''))]),
             (''CLIENTDATAX'', JObj [(''BASE_UOM'', JStr ''X'')])]))"

definition buildUpdateFlags :: "jsval \<Rightarrow> jserror + jsval" where
  "buildUpdateFlags record_data =
     (if nullish record_data then Inl (TypeError ''Cannot convert undefined or null to object'')
      else Inr (JObj (fold (\<lambda>key flags. AList.update key (JStr ''X'') flags)
                           (map fst (ownProps record_data)) [])))"

definition buildMaterialUpdateParameters :: "jsval \<Rightarrow> jsval \<Rightarrow> jserror + jsval" where
  "buildMaterialUpdateParameters sapKey record_data =
     (case buildUpdateFlags record_data of
        Inl e \<Rightarrow> Inl e
      | Inr flags \<Rightarrow>
          Inr (JObj
            [(''HEADDATA'', JObj [(''MATERIAL'', sapKey)]),
             (''CLIENTDATA'', record_data),
             (''CLIENTDATAX'', flags)]))"

definition buildCustomerCreateParameters :: "jsval \<Rightarrow> jserror + jsval" where
  "buildCustomerCreateParameters record_data =
     (case getProp record_data ''CUSTOMER'' of
        Inl e \<Rightarrow> Inl e
      | Inr customer \<Rightarrow>
          Inr (JObj
            [(''PI_CUSTOMER'', js_or customer (JStr [])),
             (''PI_PERSONALDATA'', JObj
                [(''FIRSTNAME'', js_or (propOf record_data ''NAME1'') (JStr [])),
                 (''LASTNAME'', js_or (propOf record_data ''NAME2'') (JStr [])),
                 (''COUNTRY'', js_or (propOf record_data ''COUNTRY'') (JStr ''US''))])]))"

text \<open>
  A builder the class calls and does not define (\<^verbatim>\<open>_buildVendorCreateParameters\<close> and
  its like): the call throws.
\<close>

definition notAFunction :: "string \<Rightarrow> jserror + (string \<times> jsval)" where
  "notAFunction name = Inl (TypeError (''this.'' @ name @ '' is not a function''))"

definition withFunction :: "string \<Rightarrow> jserror + jsval \<Rightarrow> jserror + (string \<times> jsval)" where
  "withFunction bapiFunction parameters =
     (case parameters of Inl e \<Rightarrow> Inl e | Inr p \<Rightarrow> Inr (bapiFunction, p))"

subsection \<open>Create, update, delete, read\<close>

text \<open>
  The part the three operations share: with the function and parameters the switch
  selected (or the error it threw), execute the BAPI and normalize the response; every
  error on the way is caught and becomes a failure result.
\<close>

definition invokeSelected ::
  "env \<Rightarrow> SAPRFCService \<Rightarrow> jsval \<Rightarrow> string \<Rightarrow> jserror + (string \<times> jsval) \<Rightarrow> options
     \<Rightarrow> SAPRFCService \<times> ProcessingResult" where
  "invokeSelected env s entityType operation selected opts =
     (case selected of
        Inl e \<Rightarrow> (s, failure (nowOf env s) (JStr []) entityType operation (Thrown e) None None)
      | Inr (bapiFunction, parameters) \<Rightarrow>
          (case executeBAPI env s bapiFunction parameters opts of
             (s1, Inl e) \<Rightarrow>
               (s1, failure (nowOf env s1) (JStr []) entityType operation (Thrown e) None None)
           | (s1, Inr result) \<Rightarrow>
               (case fromBAPIResult (nowOf env s1) (JStr []) entityType operation result of
                  Inl e \<Rightarrow>
                    (s1, failure (nowOf env s1) (JStr []) entityType operation (Thrown e) None None)
                | Inr r \<Rightarrow> (s1, r))))"

definition selectCreate :: "jsval \<Rightarrow> jsval \<Rightarrow> jserror + (string \<times> jsval)" where
  "selectCreate entityType record_data =
     (case toUpperCase entityType of
        Inl e \<Rightarrow> Inl e
      | Inr u \<Rightarrow>
          if u = ''MATERIAL'' then
            withFunction ''BAPI_MATERIAL_SAVEDATA'' (buildMaterialCreateParameters record_data)
          else if u = ''CUSTOMER'' then
            withFunction ''BAPI_CUSTOMER_CREATEFROMDATA1'' (buildCustomerCreateParameters record_data)
          else if u = ''VENDOR'' then notAFunction ''_buildVendorCreateParameters''
          else if u = ''SALES_ORDER'' then notAFunction ''_buildSalesOrderCreateParameters''
          else if u = ''PURCHASE_ORDER'' then notAFunction ''_buildPurchaseOrderCreateParameters''
          else Inl (Error (''Unsupported entity type for creation: '' @ toStr entityType)))"

definition createRecord ::
  "env \<Rightarrow> SAPRFCService \<Rightarrow> jsval \<Rightarrow> jsval \<Rightarrow> options \<Rightarrow> SAPRFCService \<times> ProcessingResult" where
  "createRecord env s entityType record_data opts =
     invokeSelected env s entityType ''CREATE'' (selectCreate entityType record_data) opts"

definition selectUpdate :: "jsval \<Rightarrow> jsval \<Rightarrow> jsval \<Rightarrow> jserror + (string \<times> jsval)" where
  "selectUpdate entityType sapKey record_data =
     (case toUpperCase entityType of
        Inl e \<Rightarrow> Inl e
      | Inr u \<Rightarrow>
          if u = ''MATERIAL'' then
            withFunction ''BAPI_MATERIAL_SAVEDATA'' (buildMaterialUpdateParameters sapKey record_data)
          else if u = ''CUSTOMER'' then notAFunction ''_buildCustomerUpdateParameters''
          else if u = ''VENDOR'' then notAFunction ''_buildVendorUpdateParameters''
          else if u = ''SALES_ORDER'' then notAFunction ''_buildSalesOrderUpdateParameters''
          else Inl (Error (''Unsupported entity type for update: '' @ toStr entityType)))"

definition updateRecord ::
  "env \<Rightarrow> SAPRFCService \<Rightarrow> jsval \<Rightarrow> jsval \<Rightarrow> jsval \<Rightarrow> options
     \<Rightarrow> SAPRFCService \<times> ProcessingResult" where
  "updateRecord env s entityType sapKey record_data opts =
     invokeSelected env s entityType ''UPDATE'' (selectUpdate entityType sapKey record_data) opts"

text \<open>\<^verbatim>\<open>iso.split('T')[0].replace(/-/g, '')\<close>.\<close>

definition compactDate :: "string \<Rightarrow> string" where
  "compactDate isoText = filter (\<lambda>c. c \<noteq> CHR ''-'') (takeWhile (\<lambda>c. c \<noteq> CHR ''T'') isoText)"

definition deleteRecord ::
  "env \<Rightarrow> SAPRFCService \<Rightarrow> jsval \<Rightarrow> jsval \<Rightarrow> options \<Rightarrow> SAPRFCService \<times> ProcessingResult" where
  "deleteRecord env s entityType sapKey opts =
     (if flagForDeletion opts \<noteq> JBool False then
        updateRecord env s entityType sapKey
          (JObj [(''DELETION_FLAG'', JStr ''X''),
                 (''DELETION_DATE'', JStr (compactDate (toISOString (nowOf env s))))])
          opts
      else
        (s, failure (nowOf env s) (JStr []) entityType ''DELETE''
              (Thrown (Error (''Physical deletion not supported for entity type: '' @ toStr entityType)))
              None None))"

definition selectRead :: "jsval \<Rightarrow> jsval \<Rightarrow> jserror + (string \<times> jsval)" where
  "selectRead entityType sapKey =
     (case toUpperCase entityType of
        Inl e \<Rightarrow> Inl e
      | Inr u \<Rightarrow>
          if u = ''MATERIAL'' then Inr (''BAPI_MATERIAL_GET_DETAIL'', JObj [(''MATERIAL'', sapKey)])
          else if u = ''CUSTOMER'' then Inr (''BAPI_CUSTOMER_GETDETAIL2'', JObj [(''CUSTOMERNO'', sapKey)])
          else if u = ''VENDOR'' then Inr (''BAPI_VENDOR_GETDETAIL'', JObj [(''VENDORNO'', sapKey)])
          else if u = ''SALES_ORDER'' then Inr (''BAPI_SALESORDER_GETDETAIL'', JObj [(''SALESDOCUMENT'', sapKey)])
          else Inl (Error (''Unsupported entity type for read: '' @ toStr entityType)))"

definition readRecord ::
  "env \<Rightarrow> SAPRFCService \<Rightarrow> jsval \<Rightarrow> jsval \<Rightarrow> SAPRFCService \<times> ProcessingResult" where
  "readRecord env s entityType sapKey =
     invokeSelected env s entityType ''READ'' (selectRead entityType sapKey)
       \<lparr> commitWork = JBool False, flagForDeletion = JUndefined \<rparr>"

subsection \<open>The logging sanitizer\<close>

text \<open>
  \<^verbatim>\<open>_sanitizeParameters\<close> copies its argument and overwrites properties of the copy, so
  what it leaves of the argument depends on the two being different objects. Objects
  are therefore kept in a store here: a reference is an index, \<^verbatim>\<open>{...parameters}\<close>
  allocates, and an assignment \<^verbatim>\<open>sanitized[key] = v\<close> updates the store at the
  reference.
\<close>

type_synonym store = "(string \<times> jsval) list list"

definition sensitiveFields :: "string list" where
  "sensitiveFields = [''passwd'', ''password'', ''pwd'', ''secret'', ''token'']"

text \<open>\<^verbatim>\<open>s.includes(sub)\<close>.\<close>

primrec js_includes :: "string \<Rightarrow> string \<Rightarrow> bool" where
  "js_includes [] sub = (sub = [])"
| "js_includes (c # cs) sub = (take (length sub) (c # cs) = sub \<or> js_includes cs sub)"

definition isSensitive :: "string \<Rightarrow> bool" where
  "isSensitive key = list_ex (\<lambda>f. js_includes (toLowerCase key) f) sensitiveFields"

definition sanitizeStep :: "nat \<Rightarrow> string \<Rightarrow> store \<Rightarrow> store" where
  "sanitizeStep sanitized key h =
     (if isSensitive key then h[sanitized := AList.update key (JStr ''***'') (h ! sanitized)] else h)"

definition sanitizeParameters :: "store \<Rightarrow> nat \<Rightarrow> store \<times> nat" where
  "sanitizeParameters h parameters =
     (let sanitized = length h;
          h1 = h @ [h ! parameters]
      in (fold (sanitizeStep sanitized) (map fst (h1 ! sanitized)) h1, sanitized))"

section \<open>The adapter (SAPAdapter.js)\<close>

record stats =
  eventsProcessed :: nat
  eventsSuccessful :: nat
  eventsFailed :: nat
  sapCallsExecuted :: nat
  averageProcessingTime :: rat
  totalProcessingTime :: int

record notification =
  n_integrationEvent :: IntegrationEvent
  n_sapRecord :: SAPRecord
  n_result :: ProcessingResult

text \<open>
  An observer registered with \<^verbatim>\<open>onEvent\<close>: all the adapter can see of it is whether
  the call throws, and what it throws: an error object or any other value (JavaScript
  lets a function throw anything, null and undefined included).
\<close>

type_synonym handler = "string \<Rightarrow> notification \<Rightarrow> errarg option"

record SAPAdapter =
  config_sap :: jsval
  sapService :: SAPRFCService
  adapterStats :: stats
  eventHandlers :: "handler list"

definition newService :: "int \<Rightarrow> SAPRFCService" where
  "newService t =
     \<lparr> isConnectedFlag = False, hasClient = False, lastError = None, lastActivity = None,
       callsExecuted = 0, errorsCount = 0, averageResponseTime = 0, totalResponseTime = 0,
       history = [], clock = t \<rparr>"

definition newStats :: stats where
  "newStats =
     \<lparr> eventsProcessed = 0, eventsSuccessful = 0, eventsFailed = 0, sapCallsExecuted = 0,
       averageProcessingTime = 0, totalProcessingTime = 0 \<rparr>"

definition updateStats :: "int \<Rightarrow> bool \<Rightarrow> stats \<Rightarrow> stats" where
  "updateStats processingTime ok st =
     (let st1 = st \<lparr> eventsProcessed := eventsProcessed st + 1,
                        totalProcessingTime := totalProcessingTime st + processingTime \<rparr>;
          st2 = st1 \<lparr> averageProcessingTime :=
                          of_int (totalProcessingTime st1) / of_nat (eventsProcessed st1) \<rparr>
      in if ok then st2 \<lparr> eventsSuccessful := eventsSuccessful st2 + 1 \<rparr>
         else st2 \<lparr> eventsFailed := eventsFailed st2 + 1 \<rparr>)"

definition markAsProcessed :: "utc \<Rightarrow> ProcessingResult \<Rightarrow> IntegrationEvent \<Rightarrow> IntegrationEvent" where
  "markAsProcessed now result e =
     (let e1 = e \<lparr> ev_status := (if pr_success result then ''completed'' else ''failed''),
                      ev_processedAt := JStr (toISOString now) \<rparr>
      in if \<not> pr_success result \<and> truthy (pr_error result)
         then e1 \<lparr> ev_errors := ev_errors e1 @
                  [\<lparr> ee_timestamp = toISOString now, ee_error = pr_error result,
                     ee_retryCount = ev_retryCount e1 \<rparr>] \<rparr>
         else e1)"

text \<open>
  \<^verbatim>\<open>_notifyEventHandlers\<close>: each handler runs inside its own try/catch, and the catch
  body reads \<^verbatim>\<open>error.message\<close> for its log entry. On a thrown null or undefined that
  read throws in turn, inside the catch: the error leaves the loop, the handlers after
  it are not called. The value is the error that leaves the loop, if any.
\<close>

fun notifyEventHandlers :: "handler list \<Rightarrow> string \<Rightarrow> notification \<Rightarrow> jserror option" where
  "notifyEventHandlers [] eventType d = None"
| "notifyEventHandlers (h # hs) eventType d =
     (case h eventType d of
        None \<Rightarrow> notifyEventHandlers hs eventType d
      | Some (Thrown error) \<Rightarrow> notifyEventHandlers hs eventType d
      | Some (Value v) \<Rightarrow>
          (case getProp v ''message'' of
             Inl e \<Rightarrow> Some e
           | Inr _ \<Rightarrow> notifyEventHandlers hs eventType d))"

definition handleSyncEvent ::
  "env \<Rightarrow> SAPRFCService \<Rightarrow> SAPRecord \<Rightarrow> SAPRFCService \<times> ProcessingResult" where
  "handleSyncEvent env s sapRecord =
     (case readRecord env s (rec_sapEntityType sapRecord) (rec_sapKey sapRecord) of
        (s1, readResult) \<Rightarrow>
          if \<not> pr_success readResult then
            createRecord env s1 (rec_sapEntityType sapRecord) (rec_data sapRecord) noOptions
          else
            updateRecord env s1 (rec_sapEntityType sapRecord) (rec_sapKey sapRecord)
              (rec_data sapRecord) noOptions)"

text \<open>
  The switch on the event type. The options object the adapter passes holds the event
  and the record only, so the service reads both of its options as undefined.
\<close>

definition dispatch ::
  "env \<Rightarrow> SAPRFCService \<Rightarrow> IntegrationEvent \<Rightarrow> SAPRecord
     \<Rightarrow> jserror + (SAPRFCService \<times> ProcessingResult)" where
  "dispatch env s integrationEvent sapRecord =
     (if ev_eventType integrationEvent = JStr ''Create'' then
        Inr (createRecord env s (rec_sapEntityType sapRecord) (rec_data sapRecord) noOptions)
      else if ev_eventType integrationEvent = JStr ''Update'' then
        Inr (updateRecord env s (rec_sapEntityType sapRecord) (rec_sapKey sapRecord)
               (rec_data sapRecord) noOptions)
      else if ev_eventType integrationEvent = JStr ''Delete'' then
        Inr (deleteRecord env s (rec_sapEntityType sapRecord) (rec_sapKey sapRecord) noOptions)
      else if ev_eventType integrationEvent = JStr ''Sync'' then
        Inr (handleSyncEvent env s sapRecord)
      else Inl (Error (''Unsupported event type: '' @ toStr (ev_eventType integrationEvent))))"

text \<open>The body of the try block of \<^verbatim>\<open>processEvent\<close>; \<open>Inl\<close> is what it throws.\<close>

definition tryBlock :: "env \<Rightarrow> SAPAdapter \<Rightarrow> int \<Rightarrow> jsval \<Rightarrow> SAPAdapter \<times> (jserror + ProcessingResult)" where
  "tryBlock env a startTime eventData =
     (case fromIntegrationBridgeDto (nowOf env (sapService a)) eventData of
        Inl e \<Rightarrow> (a, Inl e)
      | Inr integrationEvent \<Rightarrow>
          (case fromIntegrationEvent (clock (sapService a)) (nowOf env (sapService a))
                  integrationEvent (config_sap a) of
             Inl e \<Rightarrow> (a, Inl e)
           | Inr sapRecord \<Rightarrow>
               (case dispatch env (sapService a) integrationEvent sapRecord of
                  Inl e \<Rightarrow> (a, Inl e)
                | Inr (s1, result) \<Rightarrow>
                    (let processingTime = clock s1 - startTime;
                         a1 = a \<lparr> sapService := s1,
                                  adapterStats := updateStats processingTime (pr_success result)
                                                    (adapterStats a) \<rparr>;
                         integrationEvent1 = markAsProcessed (nowOf env s1) result integrationEvent;
                         result1 = setProcessingTime (clock s1) startTime result
                     in case notifyEventHandlers (eventHandlers a1) ''event-processed''
                               \<lparr> n_integrationEvent = integrationEvent1, n_sapRecord = sapRecord,
                                 n_result = result1 \<rparr> of
                          Some e \<Rightarrow> (a1, Inl e)
                        | None \<Rightarrow> (a1, Inr result1)))))"

text \<open>
  The catch block: statistics first, then the log entry and the failure result, both
  of which read \<^verbatim>\<open>eventData.eventId\<close>.
\<close>

definition catchBlock ::
  "env \<Rightarrow> SAPAdapter \<Rightarrow> int \<Rightarrow> jsval \<Rightarrow> jserror \<Rightarrow> SAPAdapter \<times> (jserror + ProcessingResult)" where
  "catchBlock env a startTime eventData error =
     (let processingTime = clock (sapService a) - startTime;
          a1 = a \<lparr> adapterStats := updateStats processingTime False (adapterStats a) \<rparr>
      in case getProp eventData ''eventId'' of
           Inl e \<Rightarrow> (a1, Inl e)
         | Inr _ \<Rightarrow>
             (a1, Inr (setProcessingTime (clock (sapService a1)) startTime
                         (failure (nowOf env (sapService a1))
                            (js_or (propOf eventData ''eventId'') (propOf eventData ''EventId''))
                            (js_or (propOf eventData ''entityType'') (propOf eventData ''EntityType''))
                            ''PROCESS'' (Thrown error) None None))))"

text \<open>
  \<^verbatim>\<open>processEvent\<close>: the adapter after the call, and the result the promise resolves to
  (\<open>Inr\<close>) or the error it rejects with (\<open>Inl\<close>).
\<close>

definition processEvent :: "env \<Rightarrow> SAPAdapter \<Rightarrow> jsval \<Rightarrow> SAPAdapter \<times> (jserror + ProcessingResult)" where
  "processEvent env a eventData =
     (let startTime = clock (sapService a) in
      case tryBlock env a startTime eventData of
        (a1, Inr result) \<Rightarrow> (a1, Inr result)
      | (a1, Inl error) \<Rightarrow> catchBlock env a1 startTime eventData error)"

text \<open>
  A freshly constructed adapter, and a run of \<^verbatim>\<open>processEvent\<close> calls one after another
  (each call completes before the next starts; interleavings of concurrent calls are
  outside the model).
\<close>

definition newAdapter :: "jsval \<Rightarrow> int \<Rightarrow> handler list \<Rightarrow> SAPAdapter" where
  "newAdapter sapConfig t handlers =
     \<lparr> config_sap = sapConfig, sapService = newService t, adapterStats = newStats,
       eventHandlers = handlers \<rparr>"

fun processAll :: "env \<Rightarrow> SAPAdapter \<Rightarrow> jsval list \<Rightarrow> SAPAdapter" where
  "processAll env a [] = a"
| "processAll env a (eventData # rest) = processAll env (fst (processEvent env a eventData)) rest"

section \<open>Concrete inputs\<close>

text \<open>The inputs of the specification's scenarios, used to run the model.\<close>

definition scenario_now :: utc where
  "scenario_now =
     \<lparr> utc_year = 2024, utc_month = 1, utc_day = 1, utc_hours = 0, utc_minutes = 0,
       utc_seconds = 0, utc_millis = 0 \<rparr>"

definition scenario_payload :: jsval where
  "scenario_payload =
     JObj [(''eventType'', JStr ''Create''),
           (''entityType'', JStr ''Product''),
           (''eventId'', JStr ''e1''),
           (''timeStamp'', JStr ''2024-01-01T00:00:00Z''),
           (''payload'', JObj [(''data'',
              JObj [(''id'', JStr ''MAT001''), (''name'', JStr ''Widget''),
                    (''baseUnit'', JStr ''EA'')])])]"

definition scenario_error_response :: jsval where
  "scenario_error_response =
     JObj [(''RETURN'', JArr [JObj [(''TYPE'', JStr ''E''), (''ID'', JStr ''M3''),
                                    (''NUMBER'', JStr ''051''),
                                    (''MESSAGE'', JStr ''Material already exists'')]])]"

definition scenario_warning_response :: jsval where
  "scenario_warning_response =
     JObj [(''RETURN'', JArr [JObj [(''TYPE'', JStr ''W''), (''ID'', JStr ''M3''),
                                    (''NUMBER'', JStr ''001''),
                                    (''MESSAGE'', JStr ''Check the base unit'')]]),
           (''MATERIAL'', JStr ''MAT001'')]"

definition scenario_rfc_response :: jsval where
  "scenario_rfc_response =
     JObj [(''ET_RETURN'', JArr [JObj [(''TYPE'', JStr ''W''), (''ID'', JStr ''M3''),
                                    (''NUMBER'', JStr ''001''),
                                    (''MESSAGE'', JStr ''Check the base unit'')]]),
           (''MATERIAL'', JStr ''MAT001'')]"

definition connectedService :: SAPRFCService where
  "connectedService = (newService 0) \<lparr> isConnectedFlag := True, hasClient := True \<rparr>"

definition env_without_return :: env where
  "env_without_return =
     \<lparr> transport = (\<lambda>h name ps. (5, Inr (JObj [(''MATERIAL'', JStr ''MAT001'')]))),
       calendar = (\<lambda>t. scenario_now) \<rparr>"

definition env_commit_fails :: env where
  "env_commit_fails =
     \<lparr> transport = (\<lambda>h name ps.
          if name = ''BAPI_TRANSACTION_COMMIT'' then (3, Inl (Error ''commit failed''))
          else (5, Inr (JObj [(''RETURN'', JArr []), (''MATERIAL'', JStr ''MAT001'')]))),
       calendar = (\<lambda>t. scenario_now) \<rparr>"

definition physicalDeletion :: options where
  "physicalDeletion = \<lparr> commitWork = JUndefined, flagForDeletion = JBool False \<rparr>"

definition scenario_store :: store where
  "scenario_store =
     [[(''user'', JStr ''RFC_USER''), (''PASSWD'', JStr ''hunter2''), (''apiToken'', JNum 5)]]"

definition scenario_args :: pr_args where
  "scenario_args =
     \<lparr> a_success = True, a_eventId = JStr ''e1'', a_entityType = JStr ''MATERIAL'',
       a_operation = ''CREATE'', a_sapResult = JUndefined, a_message = JUndefined,
       a_error = JUndefined, a_metadata = None, a_timestamp = JUndefined,
       a_processingTime = JUndefined, a_retryable = None \<rparr>"

definition scenario_config :: jsval where
  "scenario_config = JObj [(''client'', JStr ''100''), (''companyCode'', JStr ''1000'')]"

definition scenario_env :: env where
  "scenario_env =
     \<lparr> transport = (\<lambda>h name ps. (5, Inr (JObj [(''RETURN'', JArr [])]))),
       calendar = (\<lambda>t. scenario_now) \<rparr>"

definition scenario_adapter :: SAPAdapter where
  "scenario_adapter =
     \<lparr> config_sap = scenario_config, sapService = connectedService, adapterStats = newStats,
       eventHandlers = [] \<rparr>"

definition payload_without_timestamp :: jsval where
  "payload_without_timestamp =
     JObj [(''eventType'', JStr ''Create''),
           (''entityType'', JStr ''Product''),
           (''eventId'', JStr ''e1''),
           (''payload'', JObj [(''data'',
              JObj [(''id'', JStr ''MAT001''), (''name'', JStr ''Widget''),
                    (''baseUnit'', JStr ''EA'')])])]"

definition adapter_with_null_observer :: SAPAdapter where
  "adapter_with_null_observer =
     scenario_adapter \<lparr> eventHandlers := [\<lambda>eventType d. Some (Value JNull)] \<rparr>"

section \<open>Properties of the result normalizer\<close>

lemma getProp_value: "\<not> nullish v \<Longrightarrow> getProp v k = Inr (propOf v k)"
  by (simp add: getProp_def nullish_def)

lemma someM_pure:
  "(\<And>x. x \<in> set xs \<Longrightarrow> p x = Inr (q x)) \<Longrightarrow> someM p xs = Inr (list_ex q xs)"
  by (induction xs) auto

lemma filterM_pure:
  "(\<And>x. x \<in> set xs \<Longrightarrow> p x = Inr (q x)) \<Longrightarrow> filterM p xs = Inr (filter q xs)"
  by (induction xs) auto

lemma isBAPIError_value:
  "\<not> nullish m \<Longrightarrow>
   isBAPIError m = Inr (propOf m ''TYPE'' = JStr ''E'' \<or> propOf m ''TYPE'' = JStr ''A''
                        \<or> propOf m ''MESSAGE_TYPE'' = JStr ''E'')"
  by (simp add: isBAPIError_def getProp_value)

lemma isErrorOrAbort_value:
  "\<not> nullish m \<Longrightarrow>
   isErrorOrAbort m = Inr (propOf m ''TYPE'' = JStr ''E'' \<or> propOf m ''TYPE'' = JStr ''A'')"
  by (simp add: isErrorOrAbort_def getProp_value)

lemma isWarning_value:
  "\<not> nullish m \<Longrightarrow> isWarning m = Inr (propOf m ''TYPE'' = JStr ''W'')"
  by (simp add: isWarning_def getProp_value)

lemma success_fields:
  "pr_success (success now eid ent op res md) = True"
  "pr_retryable (success now eid ent op res md) = False"
  "pr_metadata (success now eid ent op res md) = (case md of None \<Rightarrow> [] | Some m \<Rightarrow> m)"
  by (simp_all add: success_def ProcessingResult_new_def)

lemma failure_fields:
  "pr_success (failure now eid ent op err r md) = False"
  "pr_retryable (failure now eid ent op err r md) = (case r of None \<Rightarrow> True | Some b \<Rightarrow> b)"
  "pr_error (failure now eid ent op err r md) = JStr (errorMessage err)"
  "pr_operation (failure now eid ent op err r md) = op"
  "pr_metadata (failure now eid ent op err r md) = (case md of None \<Rightarrow> [] | Some m \<Rightarrow> m)"
  by (simp_all add: failure_def ProcessingResult_new_def dflt_def)

text \<open>
  Claim C3. A response that can be read (it is not null or undefined), whose messages
  are objects or other values with properties, and one of whose messages has TYPE E or
  A, is normalized by \<^verbatim>\<open>fromBAPIResult\<close> into a failure: success is false, retryable is
  true, and the error is \<^verbatim>\<open>SAP BAPI Error: \<close> followed by the offending messages, each
  as code, number, colon, text, joined by \<^verbatim>\<open>; \<close>. The code is ID (MESSAGE_ID when ID
  is empty), the number is NUMBER (MESSAGE_NUMBER when empty), the text is MESSAGE; a
  message is offending when its TYPE is E or A or its MESSAGE_TYPE is E.
\<close>

theorem error_messages_fail_response:
  assumes "\<not> nullish bapiResult"
    and "\<forall>m \<in> set (bapiMessages bapiResult). \<not> nullish m"
    and "\<exists>m \<in> set (bapiMessages bapiResult).
           propOf m ''TYPE'' = JStr ''E'' \<or> propOf m ''TYPE'' = JStr ''A''"
  shows "case fromBAPIResult now eventId entityType operation bapiResult of
           Inl e \<Rightarrow> False
         | Inr outcome \<Rightarrow>
             pr_success outcome = False \<and> pr_retryable outcome = True \<and>
             pr_error outcome =
               JStr (''SAP BAPI Error: '' @ join ''; ''
                 (map (\<lambda>m. toStr (js_or (propOf m ''ID'') (propOf m ''MESSAGE_ID''))
                           @ toStr (js_or (propOf m ''NUMBER'') (propOf m ''MESSAGE_NUMBER''))
                           @ '': '' @ toStr (propOf m ''MESSAGE''))
                      (filter (\<lambda>m. propOf m ''TYPE'' = JStr ''E'' \<or> propOf m ''TYPE'' = JStr ''A''
                                    \<or> propOf m ''MESSAGE_TYPE'' = JStr ''E'')
                              (bapiMessages bapiResult))))"
proof -
  let ?bad = "\<lambda>m. propOf m ''TYPE'' = JStr ''E'' \<or> propOf m ''TYPE'' = JStr ''A''
                    \<or> propOf m ''MESSAGE_TYPE'' = JStr ''E''"
  have pure: "\<And>m. m \<in> set (bapiMessages bapiResult) \<Longrightarrow> isBAPIError m = Inr (?bad m)"
    using assms(2) by (simp add: isBAPIError_value)
  have some: "someM isBAPIError (bapiMessages bapiResult) = Inr (list_ex ?bad (bapiMessages bapiResult))"
    by (rule someM_pure) (rule pure)
  have filt: "filterM isBAPIError (bapiMessages bapiResult) = Inr (filter ?bad (bapiMessages bapiResult))"
    by (rule filterM_pure) (rule pure)
  have ex: "list_ex ?bad (bapiMessages bapiResult)"
    using assms(3) by (auto simp: list_ex_iff)
  have fmt: "bapiMessageText = (\<lambda>m. toStr (js_or (propOf m ''ID'') (propOf m ''MESSAGE_ID''))
                           @ toStr (js_or (propOf m ''NUMBER'') (propOf m ''MESSAGE_NUMBER''))
                           @ '': '' @ toStr (propOf m ''MESSAGE''))"
    by (rule ext) (simp add: bapiMessageText_def)
  show ?thesis
    using ex by (simp add: fromBAPIResult_def Let_def getProp_value[OF assms(1)] some filt failure_fields fmt)
qed

text \<open>The second scenario of the specification, through the theorem.\<close>

theorem error_messages_fail_response_witness:
  "case fromBAPIResult scenario_now (JStr ''e1'') (JStr ''MATERIAL'') ''CREATE''
          scenario_error_response of
     Inl e \<Rightarrow> False
   | Inr outcome \<Rightarrow>
       pr_success outcome = False \<and> pr_retryable outcome = True \<and>
       pr_error outcome = JStr ''SAP BAPI Error: M3051: Material already exists''"
proof -
  have readable: "\<not> nullish scenario_error_response"
    by (simp add: scenario_error_response_def nullish_def)
  have msgs: "bapiMessages scenario_error_response =
                [JObj [(''TYPE'', JStr ''E''), (''ID'', JStr ''M3''), (''NUMBER'', JStr ''051''),
                       (''MESSAGE'', JStr ''Material already exists'')]]"
    by (simp add: scenario_error_response_def bapiMessages_def js_or_def field_def)
  have objects: "\<forall>m \<in> set (bapiMessages scenario_error_response). \<not> nullish m"
    by (simp add: msgs nullish_def)
  have bad: "\<exists>m \<in> set (bapiMessages scenario_error_response).
               propOf m ''TYPE'' = JStr ''E'' \<or> propOf m ''TYPE'' = JStr ''A''"
    by (simp add: msgs field_def)
  show ?thesis
    using error_messages_fail_response [OF readable objects bad,
            of scenario_now "JStr ''e1''" "JStr ''MATERIAL''" "''CREATE''"]
    by (simp add: msgs field_def js_or_def split: sum.splits)
qed

lemma objectKey_first_truthy:
  "objectKey r =
     (case filter truthy (map (propOf r)
             [''MATERIAL'', ''CUSTOMER'', ''VENDOR'', ''SALESDOCUMENT'', ''PURCHASEORDER'',
              ''DOCUMENT_NUMBER'']) of
        [] \<Rightarrow> propOf r ''DOCUMENT_NUMBER''
      | v # _ \<Rightarrow> v)"
  by (simp add: objectKey_def js_or_def)

text \<open>
  Claim C4, as stated, fails on the BAPI normalizer: a response with one Warning and no
  Error or Abort message is a success with the object key in the metadata, and the
  metadata has no \<^verbatim>\<open>warnings\<close> entry.
\<close>

theorem bapi_success_has_no_warnings_entry:
  "case fromBAPIResult scenario_now (JStr ''e1'') (JStr ''MATERIAL'') ''CREATE''
          scenario_warning_response of
     Inl e \<Rightarrow> False
   | Inr outcome \<Rightarrow>
       pr_success outcome \<and>
       map_of (pr_metadata outcome) ''objectKey'' = Some (JStr ''MAT001'') \<and>
       map_of (pr_metadata outcome) ''warnings'' = None"
  by (simp add: fromBAPIResult_def scenario_warning_response_def getProp_def bapiMessages_def
        js_or_def field_def isBAPIError_def success_fields objectKey_def Let_def)

text \<open>
  Claim C4, amended. A readable response none of whose messages has TYPE E or A or
  MESSAGE_TYPE E is normalized by \<^verbatim>\<open>fromBAPIResult\<close> into a success that is not
  retryable; metadata.objectKey is the first truthy value among MATERIAL, CUSTOMER,
  VENDOR, SALESDOCUMENT, PURCHASEORDER, DOCUMENT_NUMBER (the value of DOCUMENT_NUMBER
  when none is); metadata.bapiMessages is the whole message list, warnings included,
  and there is no separate \<^verbatim>\<open>warnings\<close> entry. The separate entry is what
  \<^verbatim>\<open>fromRFCResult\<close> produces: on a response whose ET_RETURN array has no message of
  TYPE E or A it gives a success with metadata.warnings the messages of TYPE W and
  metadata.sapMessages the whole list, and no object key.
\<close>

theorem clean_response_normalizes_to_success:
  assumes "\<not> nullish bapiResult"
    and "\<forall>m \<in> set (bapiMessages bapiResult).
           \<not> nullish m \<and> propOf m ''TYPE'' \<noteq> JStr ''E'' \<and> propOf m ''TYPE'' \<noteq> JStr ''A''
           \<and> propOf m ''MESSAGE_TYPE'' \<noteq> JStr ''E''"
    and "propOf rfcResult ''ET_RETURN'' = JArr msgs"
    and "\<forall>m \<in> set msgs.
           \<not> nullish m \<and> propOf m ''TYPE'' \<noteq> JStr ''E'' \<and> propOf m ''TYPE'' \<noteq> JStr ''A''"
  shows "(case fromBAPIResult now eventId entityType operation bapiResult of
            Inl e \<Rightarrow> False
          | Inr outcome \<Rightarrow>
              pr_success outcome \<and> \<not> pr_retryable outcome \<and>
              map_of (pr_metadata outcome) ''objectKey'' =
                Some (case filter truthy (map (propOf bapiResult)
                             [''MATERIAL'', ''CUSTOMER'', ''VENDOR'', ''SALESDOCUMENT'',
                              ''PURCHASEORDER'', ''DOCUMENT_NUMBER'']) of
                        [] \<Rightarrow> propOf bapiResult ''DOCUMENT_NUMBER''
                      | v # _ \<Rightarrow> v) \<and>
              map_of (pr_metadata outcome) ''bapiMessages'' = Some (JArr (bapiMessages bapiResult)) \<and>
              map_of (pr_metadata outcome) ''warnings'' = None)
       \<and> (case fromRFCResult now eventId entityType operation rfcResult of
            Inl e \<Rightarrow> False
          | Inr outcome \<Rightarrow>
              pr_success outcome \<and> \<not> pr_retryable outcome \<and>
              map_of (pr_metadata outcome) ''warnings'' =
                Some (JArr (filter (\<lambda>m. propOf m ''TYPE'' = JStr ''W'') msgs)) \<and>
              map_of (pr_metadata outcome) ''sapMessages'' = Some (JArr msgs) \<and>
              map_of (pr_metadata outcome) ''objectKey'' = None)"
proof -
  let ?bad = "\<lambda>m. propOf m ''TYPE'' = JStr ''E'' \<or> propOf m ''TYPE'' = JStr ''A''
                    \<or> propOf m ''MESSAGE_TYPE'' = JStr ''E''"
  have "\<And>m. m \<in> set (bapiMessages bapiResult) \<Longrightarrow> isBAPIError m = Inr (?bad m)"
    using assms(2) by (simp add: isBAPIError_value)
  then have "someM isBAPIError (bapiMessages bapiResult) = Inr (list_ex ?bad (bapiMessages bapiResult))"
    by (rule someM_pure)
  moreover have "\<not> list_ex ?bad (bapiMessages bapiResult)"
    using assms(2) by (auto simp: list_ex_iff)
  ultimately have bapi_some: "someM isBAPIError (bapiMessages bapiResult) = Inr False"
    by simp
  have bapi: "fromBAPIResult now eventId entityType operation bapiResult =
                Inr (success now eventId entityType operation bapiResult
                       (Some [(''objectKey'', objectKey bapiResult),
                              (''bapiMessages'', JArr (bapiMessages bapiResult)),
                              (''bapiFunction'', propOf bapiResult ''FUNCTION_NAME'')]))"
    by (simp add: fromBAPIResult_def Let_def getProp_value[OF assms(1)] bapi_some)
  let ?ea = "\<lambda>m. propOf m ''TYPE'' = JStr ''E'' \<or> propOf m ''TYPE'' = JStr ''A''"
  have readable: "\<not> nullish rfcResult"
    using assms(3) by (auto simp: nullish_def)
  have "\<And>m. m \<in> set msgs \<Longrightarrow> isErrorOrAbort m = Inr (?ea m)"
    using assms(4) by (simp add: isErrorOrAbort_value)
  then have "someM isErrorOrAbort msgs = Inr (list_ex ?ea msgs)"
    by (rule someM_pure)
  moreover have "\<not> list_ex ?ea msgs"
    using assms(4) by (auto simp: list_ex_iff)
  ultimately have rfc_some: "someM isErrorOrAbort msgs = Inr False"
    by simp
  have "\<And>m. m \<in> set msgs \<Longrightarrow> isWarning m = Inr (propOf m ''TYPE'' = JStr ''W'')"
    using assms(4) by (simp add: isWarning_value)
  then have warn: "filterM isWarning msgs = Inr (filter (\<lambda>m. propOf m ''TYPE'' = JStr ''W'') msgs)"
    by (rule filterM_pure)
  have rfc: "fromRFCResult now eventId entityType operation rfcResult =
               Inr (success now eventId entityType operation rfcResult
                      (Some [(''warnings'', JArr (filter (\<lambda>m. propOf m ''TYPE'' = JStr ''W'') msgs)),
                             (''rfcFunction'', propOf rfcResult ''FUNCTION_NAME''),
                             (''sapMessages'', JArr msgs)]))"
    by (simp add: fromRFCResult_def getProp_value[OF readable] assms(3) rfc_some warn)
  show ?thesis
    by (simp add: bapi rfc success_fields objectKey_first_truthy)
qed

text \<open>One Warning and nothing else, through both normalizers.\<close>

theorem clean_response_normalizes_to_success_witness:
  "(case fromBAPIResult scenario_now (JStr ''e1'') (JStr ''MATERIAL'') ''CREATE''
           scenario_warning_response of
      Inl e \<Rightarrow> False
    | Inr outcome \<Rightarrow>
        pr_success outcome \<and> \<not> pr_retryable outcome \<and>
        map_of (pr_metadata outcome) ''objectKey'' = Some (JStr ''MAT001'') \<and>
        map_of (pr_metadata outcome) ''bapiMessages'' =
          Some (JArr [JObj [(''TYPE'', JStr ''W''), (''ID'', JStr ''M3''), (''NUMBER'', JStr ''001''),
                            (''MESSAGE'', JStr ''Check the base unit'')]]) \<and>
        map_of (pr_metadata outcome) ''warnings'' = None)
   \<and> (case fromRFCResult scenario_now (JStr ''e1'') (JStr ''MATERIAL'') ''CREATE''
           scenario_rfc_response of
      Inl e \<Rightarrow> False
    | Inr outcome \<Rightarrow>
        pr_success outcome \<and> \<not> pr_retryable outcome \<and>
        map_of (pr_metadata outcome) ''warnings'' =
          Some (JArr [JObj [(''TYPE'', JStr ''W''), (''ID'', JStr ''M3''), (''NUMBER'', JStr ''001''),
                            (''MESSAGE'', JStr ''Check the base unit'')]]) \<and>
        map_of (pr_metadata outcome) ''objectKey'' = None)"
proof -
  let ?w = "JObj [(''TYPE'', JStr ''W''), (''ID'', JStr ''M3''), (''NUMBER'', JStr ''001''),
                  (''MESSAGE'', JStr ''Check the base unit'')]"
  have readable: "\<not> nullish scenario_warning_response"
    by (simp add: scenario_warning_response_def nullish_def)
  have msgs: "bapiMessages scenario_warning_response = [?w]"
    by (simp add: scenario_warning_response_def bapiMessages_def js_or_def field_def)
  have clean: "\<forall>m \<in> set (bapiMessages scenario_warning_response).
           \<not> nullish m \<and> propOf m ''TYPE'' \<noteq> JStr ''E'' \<and> propOf m ''TYPE'' \<noteq> JStr ''A''
           \<and> propOf m ''MESSAGE_TYPE'' \<noteq> JStr ''E''"
    by (simp add: msgs nullish_def field_def)
  have et: "propOf scenario_rfc_response ''ET_RETURN'' = JArr [?w]"
    by (simp add: scenario_rfc_response_def field_def)
  have clean_rfc: "\<forall>m \<in> set [?w].
           \<not> nullish m \<and> propOf m ''TYPE'' \<noteq> JStr ''E'' \<and> propOf m ''TYPE'' \<noteq> JStr ''A''"
    by (simp add: nullish_def field_def)
  have material: "propOf scenario_warning_response ''MATERIAL'' = JStr ''MAT001''"
    by (simp add: scenario_warning_response_def field_def)
  show ?thesis
    using clean_response_normalizes_to_success [OF readable clean et clean_rfc,
              of scenario_now "JStr ''e1''" "JStr ''MATERIAL''" "''CREATE''"]
    by (simp add: msgs material field_def split: sum.splits)
qed

section \<open>Properties of the remote-call service\<close>

lemma isConnected_updateConnectionStats [simp]:
  "isConnected (updateConnectionStats t s) = isConnected s"
  by (simp add: isConnected_def updateConnectionStats_def)

lemma history_updateConnectionStats [simp]:
  "history (updateConnectionStats t s) = history s"
  by (simp add: updateConnectionStats_def)

lemma executeRFC_history:
  "isConnected s \<Longrightarrow>
   history (fst (executeRFC env s name ps)) = history s @ [(name, ps)]"
  by (simp add: executeRFC_def Let_def split: prod.splits sum.splits)

lemma executeRFC_answer:
  "isConnected s \<Longrightarrow> transport env (history s) name ps = (t, Inr response) \<Longrightarrow>
   executeRFC env s name ps =
     (updateConnectionStats (int t)
        (s \<lparr> history := history s @ [(name, ps)], clock := clock s + int t \<rparr>),
      Inr (JObj (AList.update ''SUCCESS'' (JBool True)
                (AList.update ''EXECUTION_TIME'' (JNum (int t))
                (AList.update ''FUNCTION_NAME'' (JStr name) (ownProps response))))))"
  by (simp add: executeRFC_def)

lemma field_update: "field (AList.update k v kvs) k' = (if k' = k then v else field kvs k')"
  by (simp add: field_def update_conv')

text \<open>
  Claim C5, as stated, fails: the caller did not opt out and the response has no
  message at all, yet no commit follows, because the response has no RETURN field.
\<close>

theorem no_commit_without_return_field:
  "commitWork noOptions \<noteq> JBool False \<and>
   bapiMessages (JObj [(''MATERIAL'', JStr ''MAT001'')]) = [] \<and>
   history (fst (executeBAPI env_without_return connectedService ''BAPI_MATERIAL_SAVEDATA''
                   (JObj []) noOptions))
     = [(''BAPI_MATERIAL_SAVEDATA'', JObj [])]"
  by (simp add: noOptions_def bapiMessages_def js_or_def field_def executeBAPI_def executeRFC_def
        env_without_return_def connectedService_def newService_def isConnected_def
        updateConnectionStats_def)

text \<open>
  Claim C5, amended. On a connected service whose primary call is answered,
  \<^verbatim>\<open>executeBAPI\<close> issues the commit call exactly when the caller did not pass
  \<^verbatim>\<open>commitWork: false\<close>, the response has a truthy RETURN field, and no message of
  RETURN has TYPE E or A; it issues nothing else. In particular a response with no
  RETURN field (or a null or otherwise falsy one) gets no commit. Its result is the
  answer of the primary call (with the function name, the execution time and SUCCESS
  true added), whatever the commit call does. The messages are taken to be values with
  properties (not null or undefined) where the guard looks at them: when the caller did
  not opt out and RETURN is truthy.
\<close>

theorem commit_guard_and_result:
  assumes "isConnected s"
    and "transport env (history s) bapiName parameters = (t, Inr response)"
    and "commitWork opts \<noteq> JBool False \<and> truthy (field (ownProps response) ''RETURN'') \<longrightarrow>
           (\<forall>m \<in> set (case field (ownProps response) ''RETURN'' of
                          JArr msgs \<Rightarrow> msgs | v \<Rightarrow> [v]). \<not> nullish m)"
  shows "history (fst (executeBAPI env s bapiName parameters opts)) =
           history s @ [(bapiName, parameters)] @
           (if commitWork opts \<noteq> JBool False
               \<and> truthy (field (ownProps response) ''RETURN'')
               \<and> \<not> (\<exists>m \<in> set (case field (ownProps response) ''RETURN'' of
                                    JArr msgs \<Rightarrow> msgs | v \<Rightarrow> [v]).
                         propOf m ''TYPE'' = JStr ''E'' \<or> propOf m ''TYPE'' = JStr ''A'')
            then [(''BAPI_TRANSACTION_COMMIT'', JObj [(''WAIT'', JStr ''X'')])] else [])
       \<and> snd (executeBAPI env s bapiName parameters opts) =
           Inr (JObj (AList.update ''SUCCESS'' (JBool True)
                     (AList.update ''EXECUTION_TIME'' (JNum (int t))
                     (AList.update ''FUNCTION_NAME'' (JStr bapiName) (ownProps response)))))"
proof -
  let ?ret = "field (ownProps response) ''RETURN''"
  let ?msgs = "case ?ret of JArr msgs \<Rightarrow> msgs | v \<Rightarrow> [v]"
  let ?ea = "\<lambda>m. propOf m ''TYPE'' = JStr ''E'' \<or> propOf m ''TYPE'' = JStr ''A''"
  let ?s1 = "updateConnectionStats (int t)
               (s \<lparr> history := history s @ [(bapiName, parameters)], clock := clock s + int t \<rparr>)"
  let ?result = "JObj (AList.update ''SUCCESS'' (JBool True)
                     (AList.update ''EXECUTION_TIME'' (JNum (int t))
                     (AList.update ''FUNCTION_NAME'' (JStr bapiName) (ownProps response))))"
  have primary: "executeRFC env s bapiName parameters = (?s1, Inr ?result)"
    using assms(1,2) by (rule executeRFC_answer)
  have ret: "propOf ?result ''RETURN'' = ?ret"
    by (simp add: field_update)
  have guard: "hasBAPIErrors ?ret = Inr (\<exists>m \<in> set ?msgs. ?ea m)"
    if looked: "commitWork opts \<noteq> JBool False" "truthy ?ret"
  proof -
    have "\<And>m. m \<in> set ?msgs \<Longrightarrow> isErrorOrAbort m = Inr (?ea m)"
      using assms(3) looked by (simp add: isErrorOrAbort_value)
    then have "someM isErrorOrAbort ?msgs = Inr (list_ex ?ea ?msgs)"
      by (rule someM_pure)
    then show ?thesis
      by (simp add: hasBAPIErrors_def list_ex_iff)
  qed
  have connected: "isConnected ?s1"
    using assms(1) unfolding isConnected_updateConnectionStats by (simp add: isConnected_def)
  have hist1: "history ?s1 = history s @ [(bapiName, parameters)]"
    by simp
  have commit: "history (fst (executeRFC env ?s1 ''BAPI_TRANSACTION_COMMIT'' (JObj [(''WAIT'', JStr ''X'')])))
                  = history s @ [(bapiName, parameters), (''BAPI_TRANSACTION_COMMIT'', JObj [(''WAIT'', JStr ''X'')])]"
    using executeRFC_history [OF connected] hist1 by simp
  show ?thesis
  proof (cases "commitWork opts \<noteq> JBool False \<and> truthy ?ret")
    case True
    then have "hasBAPIErrors ?ret = Inr (\<exists>m \<in> set ?msgs. ?ea m)"
      using guard by blast
    then show ?thesis
      using True unfolding executeBAPI_def primary
      by (simp only: prod.case sum.case ret) (simp add: commit)
  next
    case False
    then show ?thesis
      unfolding executeBAPI_def primary
      by (simp only: prod.case sum.case ret) auto
  qed
qed

text \<open>
  A write whose commit call throws: the commit was issued and the result is the primary
  answer. And a write answered without a RETURN field: no commit.
\<close>

theorem commit_guard_and_result_witness:
  "history (fst (executeBAPI env_commit_fails connectedService ''BAPI_MATERIAL_SAVEDATA''
                   (JObj []) noOptions))
     = [(''BAPI_MATERIAL_SAVEDATA'', JObj []),
        (''BAPI_TRANSACTION_COMMIT'', JObj [(''WAIT'', JStr ''X'')])]
   \<and> snd (executeBAPI env_commit_fails connectedService ''BAPI_MATERIAL_SAVEDATA''
            (JObj []) noOptions)
     = Inr (JObj [(''RETURN'', JArr []), (''MATERIAL'', JStr ''MAT001''),
                  (''FUNCTION_NAME'', JStr ''BAPI_MATERIAL_SAVEDATA''),
                  (''EXECUTION_TIME'', JNum 5), (''SUCCESS'', JBool True)])
   \<and> history (fst (executeBAPI env_without_return connectedService ''BAPI_CUSTOMER_CREATEFROMDATA1''
                     (JObj []) noOptions))
     = [(''BAPI_CUSTOMER_CREATEFROMDATA1'', JObj [])]
   \<and> snd (executeBAPI env_without_return connectedService ''BAPI_CUSTOMER_CREATEFROMDATA1''
            (JObj []) noOptions)
     = Inr (JObj [(''MATERIAL'', JStr ''MAT001''),
                  (''FUNCTION_NAME'', JStr ''BAPI_CUSTOMER_CREATEFROMDATA1''),
                  (''EXECUTION_TIME'', JNum 5), (''SUCCESS'', JBool True)])"
proof -
  have connected: "isConnected connectedService"
    by (simp add: connectedService_def newService_def isConnected_def)
  have answer: "transport env_commit_fails (history connectedService) ''BAPI_MATERIAL_SAVEDATA'' (JObj [])
                  = (5, Inr (JObj [(''RETURN'', JArr []), (''MATERIAL'', JStr ''MAT001'')]))"
    by (simp add: env_commit_fails_def)
  have objects: "commitWork noOptions \<noteq> JBool False
                   \<and> truthy (field (ownProps (JObj [(''RETURN'', JArr []), (''MATERIAL'', JStr ''MAT001'')])) ''RETURN'') \<longrightarrow>
                 (\<forall>m \<in> set (case field (ownProps (JObj [(''RETURN'', JArr []), (''MATERIAL'', JStr ''MAT001'')])) ''RETURN'' of
                               JArr msgs \<Rightarrow> msgs | v \<Rightarrow> [v]). \<not> nullish m)"
    by (simp add: field_def)
  have bare: "transport env_without_return (history connectedService) ''BAPI_CUSTOMER_CREATEFROMDATA1'' (JObj [])
                = (5, Inr (JObj [(''MATERIAL'', JStr ''MAT001'')]))"
    by (simp add: env_without_return_def)
  have unlooked: "commitWork noOptions \<noteq> JBool False
                   \<and> truthy (field (ownProps (JObj [(''MATERIAL'', JStr ''MAT001'')])) ''RETURN'') \<longrightarrow>
                 (\<forall>m \<in> set (case field (ownProps (JObj [(''MATERIAL'', JStr ''MAT001'')])) ''RETURN'' of
                               JArr msgs \<Rightarrow> msgs | v \<Rightarrow> [v]). \<not> nullish m)"
    by (simp add: field_def)
  show ?thesis
    using commit_guard_and_result [OF connected answer objects]
          commit_guard_and_result [OF connected bare unlooked]
    by (simp add: field_def noOptions_def connectedService_def newService_def)
qed

lemma digit_is_digit: "digit d \<in> set ''0123456789''"
  unfolding digit_def by (rule nth_mem) simp

lemma showNat_digits: "set (showNat n) \<subseteq> set ''0123456789''"
proof (induction n rule: showNat.induct)
  case (1 n)
  show ?case
  proof (cases "n < 10")
    case True
    then show ?thesis using digit_is_digit [of n] by (subst showNat.simps) simp
  next
    case False
    then show ?thesis using 1 digit_is_digit [of n] by (subst showNat.simps) simp
  qed
qed

lemma showNat_length: "0 < k \<Longrightarrow> n < 10 ^ k \<Longrightarrow> length (showNat n) \<le> k"
proof (induction n arbitrary: k rule: showNat.induct)
  case (1 n)
  show ?case
  proof (cases "n < 10")
    case True
    then show ?thesis using 1(2) by (subst showNat.simps) simp
  next
    case False
    obtain j where k: "k = Suc j"
      using 1(2) by (cases k) auto
    have j: "0 < j"
    proof (rule ccontr)
      assume "\<not> 0 < j"
      then show False using False 1(3) k by simp
    qed
    have "n div 10 < 10 ^ j"
      using 1(3) k by (simp add: less_mult_imp_div_less mult.commute)
    then have "length (showNat (n div 10)) \<le> j"
      using 1(1) [OF False j] by simp
    then show ?thesis using False k by (subst showNat.simps) simp
  qed
qed

lemma padStart_digits: "set (padStart k (CHR ''0'') (showNat n)) \<subseteq> set ''0123456789''"
  using showNat_digits [of n] by (auto simp: padStart_def)

lemma padStart_length: "length s \<le> k \<Longrightarrow> length (padStart k c s) = k"
  by (simp add: padStart_def)

lemma compactDate_parts:
  assumes "CHR ''T'' \<notin> set y" "CHR ''T'' \<notin> set m" "CHR ''T'' \<notin> set d"
    and "CHR ''-'' \<notin> set y" "CHR ''-'' \<notin> set m" "CHR ''-'' \<notin> set d"
  shows "compactDate (y @ ''-'' @ m @ ''-'' @ d @ ''T'' @ rest) = y @ m @ d"
proof -
  have "takeWhile (\<lambda>c. c \<noteq> CHR ''T'') ((y @ ''-'' @ m @ ''-'' @ d) @ ''T'' @ rest) = y @ ''-'' @ m @ ''-'' @ d"
    using assms(1-3) by (subst takeWhile_append2) auto
  moreover have keep: "\<And>xs. CHR ''-'' \<notin> set xs \<Longrightarrow> filter (\<lambda>c. c \<noteq> CHR ''-'') xs = xs"
    by (simp add: filter_id_conv) auto
  have "filter (\<lambda>c. c \<noteq> CHR ''-'') (y @ ''-'' @ m @ ''-'' @ d) = y @ m @ d"
    using assms(4-6) by (simp add: keep)
  ultimately show ?thesis by (simp add: compactDate_def)
qed

lemma compactDate_toISOString:
  assumes "0 \<le> utc_year d" "utc_year d \<le> 9999"
  shows "compactDate (toISOString d) =
           padStart 4 (CHR ''0'') (showNat (nat (utc_year d)))
           @ padStart 2 (CHR ''0'') (showNat (utc_month d))
           @ padStart 2 (CHR ''0'') (showNat (utc_day d))"
proof -
  have no: "\<And>k n c. c \<notin> set ''0123456789'' \<Longrightarrow> c \<notin> set (padStart k (CHR ''0'') (showNat n))"
    using padStart_digits by blast
  show ?thesis
    using assms unfolding toISOString_def
    by (simp only: if_True simp_thms append_assoc)
       (rule compactDate_parts; rule no; simp)
qed

lemma compactDate_eight:
  assumes "0 \<le> utc_year d" "utc_year d \<le> 9999" "utc_month d \<le> 12" "utc_day d \<le> 31"
  shows "length (compactDate (toISOString d)) = 8"
    and "set (compactDate (toISOString d)) \<subseteq> set ''0123456789''"
proof -
  have "length (showNat (nat (utc_year d))) \<le> 4"
    using assms(1,2) by (intro showNat_length) auto
  moreover have "length (showNat (utc_month d)) \<le> 2"
    using assms(3) by (intro showNat_length) auto
  moreover have "length (showNat (utc_day d)) \<le> 2"
    using assms(4) by (intro showNat_length) auto
  ultimately show "length (compactDate (toISOString d)) = 8"
    by (simp add: compactDate_toISOString [OF assms(1,2)] padStart_length)
  show "set (compactDate (toISOString d)) \<subseteq> set ''0123456789''"
    by (simp only: compactDate_toISOString [OF assms(1,2)] set_append Un_subset_iff)
       (intro conjI padStart_digits)
qed

lemma showNat_small: "n < 10 \<Longrightarrow> showNat n = [digit n]"
  by (subst showNat.simps) simp

lemma showNat_large: "\<not> n < 10 \<Longrightarrow> showNat n = showNat (n div 10) @ [digit n]"
  by (subst showNat.simps) simp

lemma executeRFC_connected: "isConnected s \<Longrightarrow> isConnected (fst (executeRFC env s name ps))"
  by (simp add: executeRFC_def Let_def isConnected_def updateConnectionStats_def
        split: prod.splits sum.splits)

text \<open>On a connected service \<^verbatim>\<open>executeBAPI\<close> issues the call it is given, and after it the commit or nothing.\<close>

lemma executeBAPI_calls:
  assumes "isConnected s"
  shows "history (fst (executeBAPI env s name ps opts)) = history s @ [(name, ps)]
       \<or> history (fst (executeBAPI env s name ps opts)) =
           history s @ [(name, ps), (''BAPI_TRANSACTION_COMMIT'', JObj [(''WAIT'', JStr ''X'')])]"
proof (cases "executeRFC env s name ps")
  case (Pair s1 r)
  have h1: "history s1 = history s @ [(name, ps)]"
    using executeRFC_history [OF assms, of env name ps] Pair by simp
  have "isConnected s1"
    using executeRFC_connected [OF assms, of env name ps] Pair by simp
  then have h2: "history (fst (executeRFC env s1 ''BAPI_TRANSACTION_COMMIT'' (JObj [(''WAIT'', JStr ''X'')])))
                   = history s @ [(name, ps), (''BAPI_TRANSACTION_COMMIT'', JObj [(''WAIT'', JStr ''X'')])]"
    using executeRFC_history [of s1 env] h1 by simp
  show ?thesis
    using Pair h1 h2 by (auto simp: executeBAPI_def split: sum.splits)
qed

lemma invokeSelected_service:
  "fst (invokeSelected env s ent op (Inr (f, ps)) opts) = fst (executeBAPI env s f ps opts)"
  by (simp add: invokeSelected_def split: prod.splits sum.splits)

lemma fromBAPIResult_operation:
  "fromBAPIResult now e t op r = Inr outcome \<Longrightarrow> pr_operation outcome = op"
  by (auto simp: fromBAPIResult_def Let_def failure_fields success_def ProcessingResult_new_def
           split: sum.splits if_splits)

lemma invokeSelected_operation:
  "pr_operation (snd (invokeSelected env s ent op sel opts)) = op"
  by (auto simp: invokeSelected_def failure_fields fromBAPIResult_operation
           split: sum.splits prod.splits)

text \<open>
  Claim C6, as stated, fails at two inputs. A delete of a purchase order (no physical
  deletion asked for) reaches \<^verbatim>\<open>updateRecord\<close>, which knows no update for that entity
  type: no call is made and no parameter bag is built. And a delete with
  \<^verbatim>\<open>flagForDeletion: false\<close> is refused with a plain Error whose result is
  retryable, where the error taxonomy of the specification has an UnsupportedError
  that is never retryable.
\<close>

theorem delete_without_bag_and_retryable_refusal:
  "history (fst (deleteRecord scenario_env connectedService (JStr ''PURCHASE_ORDER'')
                   (JStr ''4500000001'') noOptions)) = []
   \<and> pr_error (snd (deleteRecord scenario_env connectedService (JStr ''PURCHASE_ORDER'')
                        (JStr ''4500000001'') noOptions))
       = JStr ''Unsupported entity type for update: PURCHASE_ORDER''
   \<and> pr_success (snd (deleteRecord scenario_env connectedService (JStr ''MATERIAL'')
                          (JStr ''MAT001'') physicalDeletion)) = False
   \<and> pr_retryable (snd (deleteRecord scenario_env connectedService (JStr ''MATERIAL'')
                            (JStr ''MAT001'') physicalDeletion)) = True"
  by (simp add: deleteRecord_def updateRecord_def selectUpdate_def upperChar_def
        invokeSelected_def failure_fields noOptions_def physicalDeletion_def
        connectedService_def newService_def)

text \<open>
  Claim C6, amended. Unless the caller passed \<^verbatim>\<open>flagForDeletion: false\<close>, a delete is
  carried out as an update with the data \<^verbatim>\<open>{DELETION_FLAG: 'X', DELETION_DATE: date}\<close>,
  the date being the current UTC date as year, month and day zero-padded to four, two
  and two digits (eight digits for a current year up to 9999):
  for the entity type MATERIAL (in any letter case) on a connected service the next
  remote call is BAPI_MATERIAL_SAVEDATA with the key in HEADDATA, both fields in
  CLIENTDATA and both flagged in CLIENTDATAX, followed by the commit call or by nothing,
  and the result is one of the UPDATE operation;
  for an entity type other than MATERIAL, CUSTOMER, VENDOR and SALES_ORDER no call is
  made and the result is a failure of the UPDATE operation that names the type as
  unsupported for update.
  With \<^verbatim>\<open>flagForDeletion: false\<close> no call is made and the result is a failure of the
  DELETE operation whose error names the entity type; it is a plain Error and the
  result is retryable.
\<close>

theorem delete_flags_material_refuses_other_types:
  assumes "0 \<le> utc_year (nowOf env s)" "utc_year (nowOf env s) \<le> 9999"
    and "utc_month (nowOf env s) \<le> 12" "utc_day (nowOf env s) \<le> 31"
  shows "(flagForDeletion opts \<noteq> JBool False \<and> toUpperCase entityType = Inr ''MATERIAL''
          \<and> isConnected s \<longrightarrow>
            take (Suc (length (history s))) (history (fst (deleteRecord env s entityType sapKey opts))) =
              history s @
              [(''BAPI_MATERIAL_SAVEDATA'',
                JObj [(''HEADDATA'', JObj [(''MATERIAL'', sapKey)]),
                      (''CLIENTDATA'',
                         JObj [(''DELETION_FLAG'', JStr ''X''),
                               (''DELETION_DATE'',
                                  JStr (padStart 4 (CHR ''0'') (showNat (nat (utc_year (nowOf env s))))
                                      @ padStart 2 (CHR ''0'') (showNat (utc_month (nowOf env s)))
                                      @ padStart 2 (CHR ''0'') (showNat (utc_day (nowOf env s)))))]),
                      (''CLIENTDATAX'',
                         JObj [(''DELETION_FLAG'', JStr ''X''), (''DELETION_DATE'', JStr ''X'')])])]
            \<and> (drop (Suc (length (history s))) (history (fst (deleteRecord env s entityType sapKey opts))) = []
               \<or> drop (Suc (length (history s))) (history (fst (deleteRecord env s entityType sapKey opts)))
                   = [(''BAPI_TRANSACTION_COMMIT'', JObj [(''WAIT'', JStr ''X'')])])
            \<and> pr_operation (snd (deleteRecord env s entityType sapKey opts)) = ''UPDATE'')
       \<and> length (padStart 4 (CHR ''0'') (showNat (nat (utc_year (nowOf env s))))
                 @ padStart 2 (CHR ''0'') (showNat (utc_month (nowOf env s)))
                 @ padStart 2 (CHR ''0'') (showNat (utc_day (nowOf env s)))) = 8
       \<and> set (padStart 4 (CHR ''0'') (showNat (nat (utc_year (nowOf env s))))
              @ padStart 2 (CHR ''0'') (showNat (utc_month (nowOf env s)))
              @ padStart 2 (CHR ''0'') (showNat (utc_day (nowOf env s)))) \<subseteq> set ''0123456789''
       \<and> (flagForDeletion opts \<noteq> JBool False
          \<and> (\<exists>u. toUpperCase entityType = Inr u
                   \<and> u \<notin> set [''MATERIAL'', ''CUSTOMER'', ''VENDOR'', ''SALES_ORDER'']) \<longrightarrow>
            fst (deleteRecord env s entityType sapKey opts) = s \<and>
            pr_success (snd (deleteRecord env s entityType sapKey opts)) = False \<and>
            pr_operation (snd (deleteRecord env s entityType sapKey opts)) = ''UPDATE'' \<and>
            pr_error (snd (deleteRecord env s entityType sapKey opts)) =
              JStr (''Unsupported entity type for update: '' @ toStr entityType))
       \<and> (flagForDeletion opts = JBool False \<longrightarrow>
            fst (deleteRecord env s entityType sapKey opts) = s \<and>
            pr_success (snd (deleteRecord env s entityType sapKey opts)) = False \<and>
            pr_operation (snd (deleteRecord env s entityType sapKey opts)) = ''DELETE'' \<and>
            pr_retryable (snd (deleteRecord env s entityType sapKey opts)) = True \<and>
            pr_error (snd (deleteRecord env s entityType sapKey opts)) =
              JStr (''Physical deletion not supported for entity type: '' @ toStr entityType))"
proof -
  let ?date = "padStart 4 (CHR ''0'') (showNat (nat (utc_year (nowOf env s))))
               @ padStart 2 (CHR ''0'') (showNat (utc_month (nowOf env s)))
               @ padStart 2 (CHR ''0'') (showNat (utc_day (nowOf env s)))"
  let ?record_data = "JObj [(''DELETION_FLAG'', JStr ''X''), (''DELETION_DATE'', JStr ?date)]"
  let ?bag = "JObj [(''HEADDATA'', JObj [(''MATERIAL'', sapKey)]),
                    (''CLIENTDATA'', ?record_data),
                    (''CLIENTDATAX'',
                       JObj [(''DELETION_FLAG'', JStr ''X''), (''DELETION_DATE'', JStr ''X'')])]"
  note date = compactDate_toISOString [OF assms(1,2)]
  have flagged: "deleteRecord env s entityType sapKey opts =
                   invokeSelected env s entityType ''UPDATE''
                     (selectUpdate entityType sapKey ?record_data) opts"
    if "flagForDeletion opts \<noteq> JBool False"
    using that by (simp add: deleteRecord_def updateRecord_def date)
  have material: "take (Suc (length (history s))) (history (fst (deleteRecord env s entityType sapKey opts))) =
              history s @ [(''BAPI_MATERIAL_SAVEDATA'', ?bag)]
            \<and> (drop (Suc (length (history s))) (history (fst (deleteRecord env s entityType sapKey opts))) = []
               \<or> drop (Suc (length (history s))) (history (fst (deleteRecord env s entityType sapKey opts)))
                   = [(''BAPI_TRANSACTION_COMMIT'', JObj [(''WAIT'', JStr ''X'')])])
            \<and> pr_operation (snd (deleteRecord env s entityType sapKey opts)) = ''UPDATE''"
    if pre: "flagForDeletion opts \<noteq> JBool False" "toUpperCase entityType = Inr ''MATERIAL''"
       "isConnected s"
  proof -
    have sel: "selectUpdate entityType sapKey ?record_data = Inr (''BAPI_MATERIAL_SAVEDATA'', ?bag)"
      using pre(2)
      by (simp add: selectUpdate_def withFunction_def buildMaterialUpdateParameters_def
            buildUpdateFlags_def nullish_def)
    have svc: "fst (deleteRecord env s entityType sapKey opts)
                 = fst (executeBAPI env s ''BAPI_MATERIAL_SAVEDATA'' ?bag opts)"
      by (simp only: flagged [OF pre(1)] sel invokeSelected_service)
    have op: "pr_operation (snd (deleteRecord env s entityType sapKey opts)) = ''UPDATE''"
      by (simp only: flagged [OF pre(1)] invokeSelected_operation)
    show ?thesis
      using executeBAPI_calls [OF pre(3), of env "''BAPI_MATERIAL_SAVEDATA''" ?bag opts] op
      unfolding svc by auto
  qed
  have len: "length ?date = 8"
    using compactDate_eight(1) [OF assms] by (simp only: date)
  have digits: "set ?date \<subseteq> set ''0123456789''"
    using compactDate_eight(2) [OF assms] by (simp only: date)
  have other: "fst (deleteRecord env s entityType sapKey opts) = s \<and>
            pr_success (snd (deleteRecord env s entityType sapKey opts)) = False \<and>
            pr_operation (snd (deleteRecord env s entityType sapKey opts)) = ''UPDATE'' \<and>
            pr_error (snd (deleteRecord env s entityType sapKey opts)) =
              JStr (''Unsupported entity type for update: '' @ toStr entityType)"
    if pre: "flagForDeletion opts \<noteq> JBool False"
       "\<exists>u. toUpperCase entityType = Inr u
            \<and> u \<notin> set [''MATERIAL'', ''CUSTOMER'', ''VENDOR'', ''SALES_ORDER'']"
  proof -
    have "selectUpdate entityType sapKey ?record_data =
            Inl (Error (''Unsupported entity type for update: '' @ toStr entityType))"
      using pre(2) by (auto simp: selectUpdate_def)
    then show ?thesis
      by (simp add: flagged [OF pre(1)] invokeSelected_def failure_fields)
  qed
  have physical: "flagForDeletion opts = JBool False \<longrightarrow>
            fst (deleteRecord env s entityType sapKey opts) = s \<and>
            pr_success (snd (deleteRecord env s entityType sapKey opts)) = False \<and>
            pr_operation (snd (deleteRecord env s entityType sapKey opts)) = ''DELETE'' \<and>
            pr_retryable (snd (deleteRecord env s entityType sapKey opts)) = True \<and>
            pr_error (snd (deleteRecord env s entityType sapKey opts)) =
              JStr (''Physical deletion not supported for entity type: '' @ toStr entityType)"
    by (simp add: deleteRecord_def failure_fields)
  show ?thesis
    using material len digits other physical by blast
qed

text \<open>
  On 2024-01-01: a material flagged for deletion, a purchase order that cannot be, and
  a physical deletion refused.
\<close>

theorem delete_flags_material_refuses_other_types_witness:
  "take 1 (history (fst (deleteRecord env_commit_fails connectedService (JStr ''Material'')
                           (JStr ''MAT001'') noOptions))) =
     [(''BAPI_MATERIAL_SAVEDATA'',
       JObj [(''HEADDATA'', JObj [(''MATERIAL'', JStr ''MAT001'')]),
             (''CLIENTDATA'', JObj [(''DELETION_FLAG'', JStr ''X''),
                                    (''DELETION_DATE'', JStr ''20240101'')]),
             (''CLIENTDATAX'', JObj [(''DELETION_FLAG'', JStr ''X''),
                                     (''DELETION_DATE'', JStr ''X'')])])]
   \<and> pr_operation (snd (deleteRecord env_commit_fails connectedService (JStr ''Material'')
                            (JStr ''MAT001'') noOptions)) = ''UPDATE''
   \<and> fst (deleteRecord env_commit_fails connectedService (JStr ''PURCHASE_ORDER'')
            (JStr ''4500000001'') noOptions) = connectedService
   \<and> pr_error (snd (deleteRecord env_commit_fails connectedService (JStr ''PURCHASE_ORDER'')
                        (JStr ''4500000001'') noOptions))
       = JStr ''Unsupported entity type for update: PURCHASE_ORDER''
   \<and> pr_error (snd (deleteRecord env_commit_fails connectedService (JStr ''MATERIAL'')
                        (JStr ''MAT001'') physicalDeletion)) =
       JStr ''Physical deletion not supported for entity type: MATERIAL''"
proof -
  have now: "nowOf env_commit_fails connectedService = scenario_now"
    by (simp add: nowOf_def env_commit_fails_def)
  have range: "0 \<le> utc_year (nowOf env_commit_fails connectedService)"
      "utc_year (nowOf env_commit_fails connectedService) \<le> 9999"
      "utc_month (nowOf env_commit_fails connectedService) \<le> 12"
      "utc_day (nowOf env_commit_fails connectedService) \<le> 31"
    by (simp_all add: now scenario_now_def)
  have year: "showNat 2024 = ''2024''"
    by (simp add: showNat_large showNat_small digit_def)
  have one: "showNat (Suc 0) = ''1''"
    by (simp add: showNat_small digit_def)
  have date: "padStart 4 (CHR ''0'') (showNat (nat (utc_year scenario_now)))
                @ padStart 2 (CHR ''0'') (showNat (utc_month scenario_now))
                @ padStart 2 (CHR ''0'') (showNat (utc_day scenario_now)) = ''20240101''"
    by (simp add: scenario_now_def year one padStart_def)
  have flagged: "flagForDeletion noOptions \<noteq> JBool False"
    by (simp add: noOptions_def)
  have physical: "flagForDeletion physicalDeletion = JBool False"
    by (simp add: physicalDeletion_def)
  have connected: "isConnected connectedService"
    by (simp add: connectedService_def newService_def isConnected_def)
  have fresh: "history connectedService = []"
    by (simp add: connectedService_def newService_def)
  have material: "toUpperCase (JStr ''Material'') = Inr ''MATERIAL''"
    by (simp add: upperChar_def)
  have order: "\<exists>u. toUpperCase (JStr ''PURCHASE_ORDER'') = Inr u
                  \<and> u \<notin> set [''MATERIAL'', ''CUSTOMER'', ''VENDOR'', ''SALES_ORDER'']"
    by (simp add: upperChar_def)
  show ?thesis
    using delete_flags_material_refuses_other_types
            [OF range, of noOptions "JStr ''Material''" "JStr ''MAT001''"]
          delete_flags_material_refuses_other_types
            [OF range, of noOptions "JStr ''PURCHASE_ORDER''" "JStr ''4500000001''"]
          delete_flags_material_refuses_other_types
            [OF range, of physicalDeletion "JStr ''MATERIAL''" "JStr ''MAT001''"]
          flagged physical connected material order
    by (simp add: now date fresh)
qed

lemma take_is_prefix: "(take (length sub) s = sub) = (\<exists>post. s = sub @ post)"
proof
  assume "take (length sub) s = sub"
  then have "s = sub @ drop (length sub) s"
    by (metis append_take_drop_id)
  then show "\<exists>post. s = sub @ post" ..
next
  assume "\<exists>post. s = sub @ post"
  then show "take (length sub) s = sub" by auto
qed

lemma js_includes_iff: "js_includes s sub = (\<exists>pre post. s = pre @ sub @ post)"
proof (induction s)
  case Nil
  then show ?case by auto
next
  case (Cons c cs)
  show ?case
  proof
    assume "js_includes (c # cs) sub"
    then consider "\<exists>post. c # cs = sub @ post" | "\<exists>pre post. cs = pre @ sub @ post"
      using Cons.IH by (auto simp: take_is_prefix simp del: take_Suc_Cons)
    then show "\<exists>pre post. c # cs = pre @ sub @ post"
    proof cases
      case 1
      then obtain post where "c # cs = [] @ sub @ post" by auto
      then show ?thesis by blast
    next
      case 2
      then obtain pre post where "c # cs = (c # pre) @ sub @ post" by auto
      then show ?thesis by blast
    qed
  next
    assume "\<exists>pre post. c # cs = pre @ sub @ post"
    then obtain pre post where eq: "c # cs = pre @ sub @ post" by blast
    show "js_includes (c # cs) sub"
    proof (cases pre)
      case Nil
      then have "\<exists>post. c # cs = sub @ post" using eq by auto
      then have "take (length sub) (c # cs) = sub" by (simp only: take_is_prefix)
      then show ?thesis by simp
    next
      case (Cons p ps)
      then have "cs = ps @ sub @ post" using eq by simp
      then have "js_includes cs sub" using Cons.IH by blast
      then show ?thesis by simp
    qed
  qed
qed

lemma isSensitive_iff:
  "isSensitive key =
     (\<exists>f \<in> set [''passwd'', ''password'', ''pwd'', ''secret'', ''token''].
        \<exists>pre post. toLowerCase key = pre @ f @ post)"
  unfolding isSensitive_def sensitiveFields_def list_ex_iff js_includes_iff ..

text \<open>What the loop of the sanitizer does to the copy, as a function on the copy alone.\<close>

lemma fold_sanitizeStep:
  "n < length g \<Longrightarrow>
   fold (sanitizeStep n) ks g =
     g[n := fold (\<lambda>key kvs. if isSensitive key then AList.update key (JStr ''***'') kvs else kvs) ks (g ! n)]"
proof (induction ks arbitrary: g)
  case Nil
  then show ?case by simp
next
  case (Cons k ks)
  show ?case
  proof (cases "isSensitive k")
    case True
    then show ?thesis using Cons.prems Cons.IH [of "g[n := AList.update k (JStr ''***'') (g ! n)]"]
      by (simp add: sanitizeStep_def)
  next
    case False
    then show ?thesis using Cons.prems Cons.IH [of g] by (simp add: sanitizeStep_def)
  qed
qed

lemma masked_keys:
  "set ks \<subseteq> fst ` set kvs \<Longrightarrow>
   map fst (fold (\<lambda>key kvs. if isSensitive key then AList.update key v kvs else kvs) ks kvs) = map fst kvs"
proof (induction ks arbitrary: kvs)
  case Nil
  then show ?case by simp
next
  case (Cons k ks)
  have same: "map fst (AList.update k v kvs) = map fst kvs"
    using Cons.prems by (simp add: update_keys)
  have "set ks \<subseteq> fst ` set (AList.update k v kvs)"
    using Cons.prems same by (metis list.set_map set_subset_Cons subset_trans)
  then show ?case using Cons.IH [of "AList.update k v kvs"] Cons.IH [of kvs] Cons.prems same
    by simp
qed

lemma masked_values:
  "map_of (fold (\<lambda>key kvs. if isSensitive key then AList.update key v kvs else kvs) ks kvs) k =
     (if k \<in> set ks \<and> isSensitive k then Some v else map_of kvs k)"
  by (induction ks arbitrary: kvs) (auto simp: update_conv')

text \<open>
  Claim C10. For every parameter object in the store, \<^verbatim>\<open>_sanitizeParameters\<close>
  returns a new object (a fresh reference) with the same keys in the same order, in
  which every key whose lower-cased name contains one of passwd, password, pwd, secret,
  token has the value \<^verbatim>\<open>'***'\<close> and every other key its value in the input; every
  object that was in the store before, the input among them, is as it was.
\<close>

theorem sanitizer_masks_sensitive_keys:
  assumes "parameters < length h"
  shows "case sanitizeParameters h parameters of
           (h', sanitized) \<Rightarrow>
             sanitized = length h \<and> take (length h) h' = h \<and>
             map fst (h' ! sanitized) = map fst (h ! parameters) \<and>
             (\<forall>k \<in> set (map fst (h ! parameters)).
                map_of (h' ! sanitized) k =
                  (if \<exists>f \<in> set [''passwd'', ''password'', ''pwd'', ''secret'', ''token''].
                        \<exists>pre post. toLowerCase k = pre @ f @ post
                   then Some (JStr ''***'')
                   else map_of (h ! parameters) k))"
proof -
  let ?mask = "\<lambda>key kvs. if isSensitive key then AList.update key (JStr ''***'') kvs else kvs"
  let ?ks = "map fst (h ! parameters)"
  have run: "sanitizeParameters h parameters =
               ((h @ [h ! parameters])[length h := fold ?mask ?ks (h ! parameters)], length h)"
    by (simp add: sanitizeParameters_def Let_def fold_sanitizeStep)
  have copy: "(h @ [h ! parameters])[length h := fold ?mask ?ks (h ! parameters)]
                = h @ [fold ?mask ?ks (h ! parameters)]"
    by (simp add: list_update_append)
  have keys: "map fst (fold ?mask ?ks (h ! parameters)) = ?ks"
    by (rule masked_keys) simp
  show ?thesis
    unfolding run copy
    by (simp add: keys masked_values isSensitive_iff [symmetric] del: set_simps)
qed

text \<open>A connection configuration with a password and a token.\<close>

theorem sanitizer_masks_sensitive_keys_witness:
  "case sanitizeParameters scenario_store 0 of
     (h', sanitized) \<Rightarrow>
       sanitized = 1 \<and> take 1 h' = scenario_store \<and>
       map fst (h' ! sanitized) = [''user'', ''PASSWD'', ''apiToken''] \<and>
       map_of (h' ! sanitized) ''user'' = Some (JStr ''RFC_USER'') \<and>
       map_of (h' ! sanitized) ''PASSWD'' = Some (JStr ''***'') \<and>
       map_of (h' ! sanitized) ''apiToken'' = Some (JStr ''***'')"
proof -
  have valid: "0 < length scenario_store"
    by (simp add: scenario_store_def)
  have s1: "\<not> isSensitive ''user''"
    by (simp add: isSensitive_def sensitiveFields_def toLowerCase_def lowerChar_def)
  have s2: "isSensitive ''PASSWD''"
    by (simp add: isSensitive_def sensitiveFields_def toLowerCase_def lowerChar_def)
  have s3: "isSensitive ''apiToken''"
    by (simp add: isSensitive_def sensitiveFields_def toLowerCase_def lowerChar_def)
  have masked: "case sanitizeParameters scenario_store 0 of
     (h', sanitized) \<Rightarrow>
       sanitized = length scenario_store \<and> take (length scenario_store) h' = scenario_store \<and>
       map fst (h' ! sanitized) = map fst (scenario_store ! 0) \<and>
       (\<forall>k \<in> set (map fst (scenario_store ! 0)).
          map_of (h' ! sanitized) k =
            (if isSensitive k then Some (JStr ''***'') else map_of (scenario_store ! 0) k))"
    using sanitizer_masks_sensitive_keys [OF valid] unfolding isSensitive_iff [symmetric] .
  show ?thesis
    using masked s1 s2 s3
    by (simp add: scenario_store_def split: prod.splits)
qed


section \<open>Properties of the adapter\<close>

lemma fromBAPIResult_retryable:
  "fromBAPIResult now e t op r = Inr outcome \<Longrightarrow> pr_retryable outcome = (\<not> pr_success outcome)"
  by (auto simp: fromBAPIResult_def Let_def failure_fields success_fields
           split: sum.splits if_splits)

lemma fromRFCResult_retryable:
  "fromRFCResult now e t op r = Inr outcome \<Longrightarrow> pr_retryable outcome = (\<not> pr_success outcome)"
  by (auto simp: fromRFCResult_def failure_fields success_fields
           split: sum.splits if_splits jsval.splits)

lemma invokeSelected_retryable:
  "pr_retryable (snd (invokeSelected env s ent op sel opts)) =
     (\<not> pr_success (snd (invokeSelected env s ent op sel opts)))"
  by (auto simp: invokeSelected_def failure_fields fromBAPIResult_retryable
           split: sum.splits prod.splits)

lemma deleteRecord_retryable:
  "pr_retryable (snd (deleteRecord env s ent k opts)) = (\<not> pr_success (snd (deleteRecord env s ent k opts)))"
  by (simp add: deleteRecord_def updateRecord_def invokeSelected_retryable failure_fields)

lemma handleSyncEvent_retryable:
  "pr_retryable (snd (handleSyncEvent env s r)) = (\<not> pr_success (snd (handleSyncEvent env s r)))"
  by (simp add: handleSyncEvent_def createRecord_def updateRecord_def invokeSelected_retryable
           split: prod.splits)

lemma dispatch_retryable:
  "dispatch env s ev r = Inr (s1, outcome) \<Longrightarrow> pr_retryable outcome = (\<not> pr_success outcome)"
  using invokeSelected_retryable deleteRecord_retryable handleSyncEvent_retryable
  by (auto simp: dispatch_def createRecord_def updateRecord_def split: if_splits)
     (metis snd_conv)+

lemma setProcessingTime_flags [simp]:
  "pr_retryable (setProcessingTime n t r) = pr_retryable r"
  "pr_success (setProcessingTime n t r) = pr_success r"
  by (simp_all add: setProcessingTime_def)

text \<open>
  The loop over the observers lets nothing out as long as no observer throws null or
  undefined.
\<close>

lemma notifyEventHandlers_quiet:
  "\<forall>h \<in> set hs. \<forall>v. h eventType d = Some (Value v) \<longrightarrow> \<not> nullish v \<Longrightarrow>
   notifyEventHandlers hs eventType d = None"
proof (induction hs)
  case Nil
  then show ?case by simp
next
  case (Cons h hs)
  then have rest: "notifyEventHandlers hs eventType d = None"
    by simp
  show ?case
  proof (cases "h eventType d")
    case None
    then show ?thesis by (simp add: rest)
  next
    case (Some thrown)
    show ?thesis
    proof (cases thrown)
      case (Thrown e)
      then show ?thesis using Some by (simp add: rest)
    next
      case (Value v)
      then have "\<not> nullish v"
        using Cons.prems Some by simp
      then show ?thesis using Some Value by (simp add: rest getProp_value)
    qed
  qed
qed

lemma tryBlock_retryable:
  "tryBlock env a t0 ev = (a1, Inr outcome) \<Longrightarrow> pr_retryable outcome = (\<not> pr_success outcome)"
  by (auto simp: tryBlock_def Let_def dispatch_retryable
           split: sum.splits prod.splits option.splits)

lemma catchBlock_retryable:
  "catchBlock env a t0 ev err = (a1, Inr outcome) \<Longrightarrow> pr_retryable outcome = (\<not> pr_success outcome)"
  by (auto simp: catchBlock_def Let_def failure_fields split: sum.splits)

lemma processEvent_retryable:
  "processEvent env a ev = (a1, Inr outcome) \<Longrightarrow> pr_retryable outcome = (\<not> pr_success outcome)"
  by (auto simp: processEvent_def Let_def tryBlock_retryable catchBlock_retryable
           split: sum.splits prod.splits)

text \<open>
  Claim C8, as stated, fails on the constructor: with success true and no retryable
  property in its argument, the result is a success that is retryable.
\<close>

theorem constructor_defaults_retryable_on_success:
  "pr_success (ProcessingResult_new scenario_now scenario_args) \<and>
   pr_retryable (ProcessingResult_new scenario_now scenario_args)"
  by (simp add: ProcessingResult_new_def scenario_args_def)

text \<open>
  Claim C8, amended. The factories keep retryable off a success:
  \<^verbatim>\<open>ProcessingResult.success\<close> gives success true and retryable false;
  \<^verbatim>\<open>ProcessingResult.failure\<close> gives success false, and retryable true unless the
  caller passes a value, which it then takes; every result of \<^verbatim>\<open>fromRFCResult\<close>, of
  \<^verbatim>\<open>fromBAPIResult\<close> and of \<^verbatim>\<open>processEvent\<close> is retryable exactly when it is not a
  success. The constructor itself defaults retryable to true whatever the success
  flag is.
\<close>

theorem factories_keep_retryable_off_success:
  "pr_success (success now eventId entityType operation sapResult metadata)
   \<and> \<not> pr_retryable (success now eventId entityType operation sapResult metadata)
   \<and> \<not> pr_success (failure now eventId entityType operation error retryable metadata)
   \<and> pr_retryable (failure now eventId entityType operation error None metadata)
   \<and> pr_retryable (failure now eventId entityType operation error (Some r) metadata) = r
   \<and> (case fromRFCResult now eventId entityType operation response of
         Inl e \<Rightarrow> True
       | Inr outcome \<Rightarrow> pr_retryable outcome = (\<not> pr_success outcome))
   \<and> (case fromBAPIResult now eventId entityType operation response of
         Inl e \<Rightarrow> True
       | Inr outcome \<Rightarrow> pr_retryable outcome = (\<not> pr_success outcome))
   \<and> (case snd (processEvent env a eventData) of
         Inl e \<Rightarrow> True
       | Inr outcome \<Rightarrow> pr_retryable outcome = (\<not> pr_success outcome))
   \<and> pr_retryable (ProcessingResult_new now (args \<lparr> a_retryable := None \<rparr>))"
proof -
  have rfc: "case fromRFCResult now eventId entityType operation response of
         Inl e \<Rightarrow> True
       | Inr outcome \<Rightarrow> pr_retryable outcome = (\<not> pr_success outcome)"
    by (simp add: fromRFCResult_retryable split: sum.splits)
  have bapi: "case fromBAPIResult now eventId entityType operation response of
         Inl e \<Rightarrow> True
       | Inr outcome \<Rightarrow> pr_retryable outcome = (\<not> pr_success outcome)"
    by (simp add: fromBAPIResult_retryable split: sum.splits)
  have adapter: "case snd (processEvent env a eventData) of
         Inl e \<Rightarrow> True
       | Inr outcome \<Rightarrow> pr_retryable outcome = (\<not> pr_success outcome)"
    using processEvent_retryable [of env a eventData]
    by (cases "processEvent env a eventData") (auto split: sum.splits)
  have new: "pr_retryable (ProcessingResult_new now (args \<lparr> a_retryable := None \<rparr>))"
    by (simp add: ProcessingResult_new_def)
  show ?thesis
    using rfc bapi adapter new by (simp add: success_fields failure_fields)
qed

lemma updateStats_counts:
  "eventsProcessed (updateStats t ok st) = eventsProcessed st + 1"
  "eventsSuccessful (updateStats t ok st) + eventsFailed (updateStats t ok st)
     = eventsSuccessful st + eventsFailed st + 1"
  "averageProcessingTime (updateStats t ok st)
     = of_int (totalProcessingTime (updateStats t ok st)) / of_nat (eventsProcessed (updateStats t ok st))"
  by (simp_all add: updateStats_def Let_def)

text \<open>
  The try block leaves the statistics alone when it throws before the dispatch, and
  updates them once when it gets past it, also when an observer's error then leaves
  the loop.
\<close>

lemma tryBlock_stats:
  "tryBlock env a t0 ev = (a1, Inl err) \<Longrightarrow>
     adapterStats a1 = adapterStats a
     \<or> (\<exists>t ok. adapterStats a1 = updateStats t ok (adapterStats a))"
  "tryBlock env a t0 ev = (a1, Inr outcome) \<Longrightarrow>
     \<exists>t. adapterStats a1 = updateStats t (pr_success outcome) (adapterStats a)"
  by (fastforce simp: tryBlock_def Let_def split: sum.splits prod.splits option.splits)+

lemma tryBlock_stats_quiet:
  assumes "\<forall>h \<in> set (eventHandlers a). \<forall>t d v. h t d = Some (Value v) \<longrightarrow> \<not> nullish v"
    and "tryBlock env a t0 ev = (a1, Inl err)"
  shows "adapterStats a1 = adapterStats a"
proof -
  have "notifyEventHandlers (eventHandlers a) t d = None" for t d
    using assms(1) by (intro notifyEventHandlers_quiet) blast
  then show ?thesis
    using assms(2)
    by (auto simp: tryBlock_def Let_def split: sum.splits prod.splits option.splits)
qed

lemma catchBlock_stats:
  "\<exists>t. adapterStats (fst (catchBlock env a t0 ev err)) = updateStats t False (adapterStats a)"
  by (auto simp: catchBlock_def Let_def split: sum.splits)

text \<open>One call of \<^verbatim>\<open>processEvent\<close> updates the statistics once or twice.\<close>

lemma processEvent_stats:
  "(\<exists>t ok. adapterStats (fst (processEvent env a ev)) = updateStats t ok (adapterStats a))
   \<or> (\<exists>t ok t'. adapterStats (fst (processEvent env a ev))
                     = updateStats t' False (updateStats t ok (adapterStats a)))"
proof (cases "tryBlock env a (clock (sapService a)) ev")
  case (Pair a1 res)
  show ?thesis
  proof (cases res)
    case (Inl err)
    obtain t' where "adapterStats (fst (catchBlock env a1 (clock (sapService a)) ev err))
                      = updateStats t' False (adapterStats a1)"
      using catchBlock_stats by blast
    then have caught: "adapterStats (fst (processEvent env a ev)) = updateStats t' False (adapterStats a1)"
      using Pair Inl by (simp add: processEvent_def Let_def)
    consider "adapterStats a1 = adapterStats a"
      | t ok where "adapterStats a1 = updateStats t ok (adapterStats a)"
      using tryBlock_stats(1) [of env a "clock (sapService a)" ev a1 err] Pair Inl by blast
    then show ?thesis
    proof cases
      case 1
      then have "adapterStats (fst (processEvent env a ev)) = updateStats t' False (adapterStats a)"
        using caught by simp
      then show ?thesis by blast
    next
      case 2
      then have "adapterStats (fst (processEvent env a ev))
                   = updateStats t' False (updateStats t ok (adapterStats a))"
        using caught by simp
      then show ?thesis by blast
    qed
  next
    case (Inr outcome)
    obtain t where "adapterStats a1 = updateStats t (pr_success outcome) (adapterStats a)"
      using Pair Inr by (auto dest: tryBlock_stats(2))
    then have "adapterStats (fst (processEvent env a ev))
                 = updateStats t (pr_success outcome) (adapterStats a)"
      using Pair Inr by (simp add: processEvent_def Let_def)
    then show ?thesis by blast
  qed
qed

text \<open>
  Whatever the observers do, the counters stay balanced and the average is the total
  over the count (exact division here, floating point in the source).
\<close>

lemma updateStats_balance:
  "eventsProcessed st = eventsSuccessful st + eventsFailed st \<Longrightarrow>
   eventsProcessed (updateStats t ok st)
     = eventsSuccessful (updateStats t ok st) + eventsFailed (updateStats t ok st)"
  using updateStats_counts(1,2) [of t ok st] by simp

lemma processEvent_balance:
  assumes "eventsProcessed (adapterStats a) = eventsSuccessful (adapterStats a) + eventsFailed (adapterStats a)"
  shows "eventsProcessed (adapterStats (fst (processEvent env a ev)))
           = eventsSuccessful (adapterStats (fst (processEvent env a ev)))
             + eventsFailed (adapterStats (fst (processEvent env a ev)))
       \<and> averageProcessingTime (adapterStats (fst (processEvent env a ev)))
           = of_int (totalProcessingTime (adapterStats (fst (processEvent env a ev))))
             / of_nat (eventsProcessed (adapterStats (fst (processEvent env a ev))))"
proof -
  consider (once) t ok where
      "adapterStats (fst (processEvent env a ev)) = updateStats t ok (adapterStats a)"
    | (twice) t ok t' where
      "adapterStats (fst (processEvent env a ev))
         = updateStats t' False (updateStats t ok (adapterStats a))"
    using processEvent_stats by blast
  then show ?thesis
  proof cases
    case once
    show ?thesis
      unfolding once using updateStats_balance [OF assms] updateStats_counts(3) by blast
  next
    case twice
    show ?thesis
      unfolding twice
      using updateStats_balance [OF updateStats_balance [OF assms]] updateStats_counts(3) by blast
  qed
qed

lemma processAll_balance:
  "eventsProcessed (adapterStats a) = eventsSuccessful (adapterStats a) + eventsFailed (adapterStats a) \<Longrightarrow>
   (0 < eventsProcessed (adapterStats a) \<longrightarrow>
      averageProcessingTime (adapterStats a)
        = of_int (totalProcessingTime (adapterStats a)) / of_nat (eventsProcessed (adapterStats a))) \<Longrightarrow>
   eventsProcessed (adapterStats (processAll env a events))
       = eventsSuccessful (adapterStats (processAll env a events))
         + eventsFailed (adapterStats (processAll env a events))
   \<and> (0 < eventsProcessed (adapterStats (processAll env a events)) \<longrightarrow>
        averageProcessingTime (adapterStats (processAll env a events))
          = of_int (totalProcessingTime (adapterStats (processAll env a events)))
            / of_nat (eventsProcessed (adapterStats (processAll env a events))))"
proof (induction events arbitrary: a)
  case Nil
  then show ?case by simp
next
  case (Cons ev events)
  show ?case
    using Cons.IH [of "fst (processEvent env a ev)"]
          processEvent_balance [OF Cons.prems(1), of env ev]
    by simp
qed

text \<open>
  With observers that throw no null and no undefined, each call counts once, on every
  path.
\<close>

lemma processEvent_counts_once:
  assumes "\<forall>h \<in> set (eventHandlers a). \<forall>t d v. h t d = Some (Value v) \<longrightarrow> \<not> nullish v"
  shows "eventsProcessed (adapterStats (fst (processEvent env a ev)))
           = eventsProcessed (adapterStats a) + 1"
proof (cases "tryBlock env a (clock (sapService a)) ev")
  case (Pair a1 res)
  show ?thesis
  proof (cases res)
    case (Inl err)
    have same: "adapterStats a1 = adapterStats a"
      using tryBlock_stats_quiet [OF assms] Pair Inl by blast
    obtain t' where "adapterStats (fst (catchBlock env a1 (clock (sapService a)) ev err))
                      = updateStats t' False (adapterStats a1)"
      using catchBlock_stats by blast
    then show ?thesis
      using Pair Inl same by (simp add: processEvent_def Let_def updateStats_counts(1))
  next
    case (Inr outcome)
    obtain t where "adapterStats a1 = updateStats t (pr_success outcome) (adapterStats a)"
      using Pair Inr by (auto dest: tryBlock_stats(2))
    then show ?thesis
      using Pair Inr by (simp add: processEvent_def Let_def updateStats_counts(1))
  qed
qed

text \<open>
  Claim C9 at an adapter with one observer that throws null, on the first scenario with
  a remote system that answers every call in 5 ms: the event is processed and counted
  as a success; the observer's null reaches the catch body of
  \<^verbatim>\<open>_notifyEventHandlers\<close>, whose read of \<^verbatim>\<open>error.message\<close> throws; that error leaves
  the loop into the catch block of \<^verbatim>\<open>processEvent\<close>, which counts the same event
  again, as a failure. One call, and eventsProcessed is 2; the result handed back is a
  failure of the PROCESS operation.
\<close>

theorem null_throwing_observer_counts_twice:
  "adapterStats (fst (processEvent scenario_env adapter_with_null_observer scenario_payload)) =
     \<lparr> eventsProcessed = 2, eventsSuccessful = 1, eventsFailed = 1, sapCallsExecuted = 0,
       averageProcessingTime = 10, totalProcessingTime = 20 \<rparr>
   \<and> (case snd (processEvent scenario_env adapter_with_null_observer scenario_payload) of
         Inl e \<Rightarrow> False
       | Inr outcome \<Rightarrow>
           pr_success outcome = False \<and> pr_operation outcome = ''PROCESS'' \<and>
           pr_error outcome = JStr ''Cannot read properties of null (reading message)'')"
  by (simp add: processEvent_def tryBlock_def catchBlock_def Let_def scenario_payload_def
        adapter_with_null_observer_def scenario_adapter_def
        scenario_env_def scenario_config_def connectedService_def newService_def newStats_def
        fromIntegrationBridgeDto_def getProp_def IntegrationEvent_new_def
        IntegrationEvent_validate_def validationErrors_def
        EventType_isValid_def EventType_getAllTypes_def EntityType_isValid_def
        EntityType_getAllTypes_def js_or_def field_def nowOf_def
        fromIntegrationEvent_def SAPRecord_validate_def recordErrors_def getSAPEntityMapping_def
        EntityType_mappings_def optProp_def nullish_def dflt_def
        dispatch_def createRecord_def selectCreate_def upperChar_def withFunction_def
        buildMaterialCreateParameters_def invokeSelected_def executeBAPI_def executeRFC_def
        isConnected_def updateConnectionStats_def hasBAPIErrors_def noOptions_def
        fromBAPIResult_def bapiMessages_def objectKey_def success_fields failure_fields
        updateStats_def setProcessingTime_def markAsProcessed_def)

text \<open>
  Claim C7 at the payloads null and undefined: building the event throws, the catch
  block reads \<^verbatim>\<open>eventData.eventId\<close> for its log entry, and that read throws again, out
  of \<^verbatim>\<open>processEvent\<close>. The caller gets a rejected promise, not a result.
\<close>

theorem null_payload_rejects:
  "snd (processEvent env a JNull) = Inl (TypeError ''Cannot read properties of null (reading eventId)'')
   \<and> snd (processEvent env a JUndefined)
       = Inl (TypeError ''Cannot read properties of undefined (reading eventId)'')"
  by (simp add: processEvent_def tryBlock_def catchBlock_def fromIntegrationBridgeDto_def
        getProp_def Let_def)

lemma scenario_now_iso: "toISOString scenario_now = ''2024-01-01T00:00:00.000Z''"
proof -
  have year: "showNat 2024 = ''2024''"
    by (simp add: showNat_large showNat_small digit_def)
  have one: "showNat (Suc 0) = ''1''"
    by (simp add: showNat_small digit_def)
  have zero: "showNat 0 = ''0''"
    by (simp add: showNat_small digit_def)
  show ?thesis
    by (simp add: toISOString_def scenario_now_def year one zero padStart_def numeral_2_eq_2)
qed

text \<open>
  Claim C1 at a payload that is valid but for its missing timestamp: the constructor
  puts the current time in the place of the timestamp before it validates, so the
  event is built and the check for a missing timestamp in \<^verbatim>\<open>_validate\<close> never fires.
\<close>

theorem missing_timestamp_is_accepted:
  "fromIntegrationBridgeDto scenario_now payload_without_timestamp =
     Inr \<lparr> ev_eventType = JStr ''Create'',
           ev_entityType = JStr ''Product'',
           ev_eventId = JStr ''e1'',
           ev_timestamp = JStr ''2024-01-01T00:00:00.000Z'',
           ev_sourceSystem = JUndefined,
           ev_payload = JObj [(''data'',
              JObj [(''id'', JStr ''MAT001''), (''name'', JStr ''Widget''),
                    (''baseUnit'', JStr ''EA'')])],
           ev_context = JUndefined,
           ev_sapSpecific = JNull,
           ev_processedAt = JNull,
           ev_retryCount = 0,
           ev_status = ''pending'',
           ev_errors = [] \<rparr>"
  by (simp add: fromIntegrationBridgeDto_def payload_without_timestamp_def getProp_def
        IntegrationEvent_new_def IntegrationEvent_validate_def validationErrors_def
        EventType_isValid_def EventType_getAllTypes_def EntityType_isValid_def
        EntityType_getAllTypes_def js_or_def field_def scenario_now_iso)

text \<open>When building the event fails, for a payload that is not null or undefined: the timestamp plays no part.\<close>

lemma fromIntegrationBridgeDto_fails_iff:
  assumes "\<not> nullish dto"
  shows "(\<exists>e. fromIntegrationBridgeDto now dto = Inl e) =
           (\<not> truthy (js_or (propOf dto ''eventType'') (propOf dto ''EventType''))
            \<or> \<not> EventType_isValid (js_or (propOf dto ''eventType'') (propOf dto ''EventType''))
            \<or> \<not> truthy (js_or (propOf dto ''entityType'') (propOf dto ''EntityType''))
            \<or> \<not> EntityType_isValid (js_or (propOf dto ''entityType'') (propOf dto ''EntityType''))
            \<or> \<not> truthy (js_or (propOf dto ''eventId'') (propOf dto ''EventId''))
            \<or> (truthy (js_or (propOf dto ''payload'') (propOf dto ''Payload''))
                \<and> \<not> truthy (propOf (js_or (propOf dto ''payload'') (propOf dto ''Payload'')) ''data'')))"
proof -
  have ts: "truthy (js_or t (JStr (toISOString now)))" for t
    by (simp add: js_or_def toISOString_def)
  show ?thesis
    by (auto simp add: fromIntegrationBridgeDto_def getProp_value [OF assms] IntegrationEvent_new_def
          IntegrationEvent_validate_def validationErrors_def ts Let_def)
qed

text \<open>
  Claim C2 on the first scenario, with a connected adapter and a remote system that
  answers every call with an empty message list: the entity type resolves to
  MATERIAL, but the create builder is handed the canonical data (keys id, name,
  baseUnit) and reads MATERIAL and BASE_UNIT, so the call goes out with an empty
  material key and the default base unit; the result is a success whose object key is
  whatever the response carries (here nothing).
\<close>

theorem scenario_create_sends_empty_material_key:
  "getSAPEntityMapping (JStr ''Product'') = JStr ''MATERIAL''
   \<and> history (sapService (fst (processEvent scenario_env scenario_adapter scenario_payload))) =
       [(''BAPI_MATERIAL_SAVEDATA'',
         JObj [(''HEADDATA'', JObj [(''MATERIAL'', JStr []), (''IND_SECTOR'', JStr ''M''),
                                    (''MATL_TYPE'', JStr ''FERT''), (''BASIC_VIEW'', JStr ''X'')]),
               (''CLIENTDATA'', JObj [(''BASE_UOM'', JStr ''EA'')]),
               (''CLIENTDATAX'', JObj [(''BASE_UOM'', JStr ''X'')])]),
        (''BAPI_TRANSACTION_COMMIT'', JObj [(''WAIT'', JStr ''X'')])]
   \<and> (case snd (processEvent scenario_env scenario_adapter scenario_payload) of
         Inl e \<Rightarrow> False
       | Inr outcome \<Rightarrow>
           pr_success outcome \<and> map_of (pr_metadata outcome) ''objectKey'' = Some JUndefined)"
  by (simp add: processEvent_def tryBlock_def Let_def scenario_payload_def scenario_adapter_def
        scenario_env_def scenario_config_def connectedService_def newService_def newStats_def
        fromIntegrationBridgeDto_def getProp_def IntegrationEvent_new_def
        IntegrationEvent_validate_def validationErrors_def
        EventType_isValid_def EventType_getAllTypes_def EntityType_isValid_def
        EntityType_getAllTypes_def js_or_def field_def nowOf_def
        fromIntegrationEvent_def SAPRecord_validate_def recordErrors_def getSAPEntityMapping_def
        EntityType_mappings_def optProp_def nullish_def dflt_def
        dispatch_def createRecord_def selectCreate_def upperChar_def withFunction_def
        buildMaterialCreateParameters_def invokeSelected_def executeBAPI_def executeRFC_def
        isConnected_def updateConnectionStats_def hasBAPIErrors_def noOptions_def
        fromBAPIResult_def bapiMessages_def objectKey_def success_fields
        updateStats_def setProcessingTime_def markAsProcessed_def)


text \<open>
  The record's own mapping (\<^verbatim>\<open>_mapMaterialFields\<close>, which the adapter never calls)
  produces the field names the builder reads: through it the key and the supplied base
  unit do arrive.
\<close>

lemma record_mapping_carries_material_key:
  "buildMaterialCreateParameters
     (JObj (mapMaterialFields
        \<lparr> rec_id = ''e1_0'', rec_sapEntityType = JStr ''MATERIAL'', rec_sapKey = JStr ''MAT001'',
          rec_entityType = JStr ''Product'', rec_integrationEventId = JStr ''e1'',
          rec_data = JObj [(''id'', JStr ''MAT001''), (''name'', JStr ''Widget''),
                           (''baseUnit'', JStr ''KG'')],
          rec_sapClient = JStr ''100'', rec_companyCode = JStr ''1000'', rec_plant = JNull,
          rec_warehouse = JNull, rec_language = JStr ''EN'', rec_createdAt = [],
          rec_updatedAt = [], rec_status = ''active'', rec_version = JNull,
          rec_changeNumber = JNull, rec_validFrom = JNull, rec_validTo = JNull \<rparr>))
   = Inr (JObj [(''HEADDATA'', JObj [(''MATERIAL'', JStr ''MAT001''), (''IND_SECTOR'', JStr ''M''),
                                    (''MATL_TYPE'', JStr ''FERT''), (''BASIC_VIEW'', JStr ''X'')]),
               (''CLIENTDATA'', JObj [(''BASE_UOM'', JStr ''KG'')]),
               (''CLIENTDATAX'', JObj [(''BASE_UOM'', JStr ''X'')])])
   \<and> buildMaterialCreateParameters
       (JObj [(''id'', JStr ''MAT001''), (''name'', JStr ''Widget''), (''baseUnit'', JStr ''KG'')])
   = Inr (JObj [(''HEADDATA'', JObj [(''MATERIAL'', JStr []), (''IND_SECTOR'', JStr ''M''),
                                    (''MATL_TYPE'', JStr ''FERT''), (''BASIC_VIEW'', JStr ''X'')]),
               (''CLIENTDATA'', JObj [(''BASE_UOM'', JStr ''EA'')]),
               (''CLIENTDATAX'', JObj [(''BASE_UOM'', JStr ''X'')])])"
  by (simp add: buildMaterialCreateParameters_def mapMaterialFields_def getProp_def js_or_def
        field_def Let_def)


end
